theory Spec2Isabelle
  imports Complex_Main
begin

section \<open>Python values and exceptions\<close>

text \<open>
  The application is Python: a Flask front end (\<^verbatim>\<open>app.py\<close>) and an inference routine
  (\<^verbatim>\<open>predict.py\<close>). A finite float is modelled by the real number it stands for;
  infinities and NaN are outside the model. Where rounding decides which branch the code
  takes or which magnitude it finds, in the second half of \<^verbatim>\<open>calculate_y_axis_range\<close>,
  the float operations are parameters of the model (\<open>float_ops\<close> below), so that what is
  proved there holds for whatever the library computes; elsewhere rounding changes the
  last place of a result only, and the arithmetic is exact. A raised exception
  is a value \<open>Inl e\<close> of a sum type; \<open>FileNotFoundError\<close> carries the attribute
  \<^verbatim>\<open>filename\<close>, every other constructor carries the text of \<^verbatim>\<open>str(e)\<close>.
\<close>

datatype exn =
    FileNotFoundError string
  | ValueError string
  | TypeError string
  | KeyError string
  | IndexError string
  | AttributeError string
  | OtherException string

text \<open>
  The values the code handles dynamically: numbers (\<^verbatim>\<open>int\<close>, \<^verbatim>\<open>float\<close>) and
  strings. \<^verbatim>\<open>get_prediction\<close> returns either, so lists of predictions hold both.
\<close>

datatype pyval = Num real | Str string

definition bindE :: "exn + 'a \<Rightarrow> ('a \<Rightarrow> exn + 'b) \<Rightarrow> exn + 'b" where
  "bindE m f = (case m of Inl e \<Rightarrow> Inl e | Inr x \<Rightarrow> f x)"

definition apos :: string where
  "apos = [CHR 0x27]"

definition dquote :: string where
  "dquote = [CHR 0x22]"

fun type_name :: "pyval \<Rightarrow> string" where
  "type_name (Num _) = ''float''"
| "type_name (Str _) = ''str''"

text \<open>Python compares strings lexicographically by code point.\<close>

fun str_lt :: "string \<Rightarrow> string \<Rightarrow> bool" where
  "str_lt [] [] = False"
| "str_lt [] (y # ys) = True"
| "str_lt (x # xs) [] = False"
| "str_lt (x # xs) (y # ys) =
     ((of_char x :: nat) < of_char y \<or> (x = y \<and> str_lt xs ys))"

definition not_supported :: "string \<Rightarrow> pyval \<Rightarrow> pyval \<Rightarrow> exn" where
  "not_supported opr a b =
     TypeError (apos @ opr @ apos @ '' not supported between instances of ''
                @ apos @ type_name a @ apos @ '' and '' @ apos @ type_name b @ apos)"

fun py_lt :: "pyval \<Rightarrow> pyval \<Rightarrow> exn + bool" where
  "py_lt (Num a) (Num b) = Inr (a < b)"
| "py_lt (Str a) (Str b) = Inr (str_lt a b)"
| "py_lt a b = Inl (not_supported ''<'' a b)"

fun py_gt :: "pyval \<Rightarrow> pyval \<Rightarrow> exn + bool" where
  "py_gt (Num a) (Num b) = Inr (b < a)"
| "py_gt (Str a) (Str b) = Inr (str_lt b a)"
| "py_gt a b = Inl (not_supported ''>'' a b)"

text \<open>
  The builtins \<^verbatim>\<open>min\<close> and \<^verbatim>\<open>max\<close>: the first item is the running result, and a
  later item replaces it only when it is strictly smaller (larger). A comparison that
  raises ends the scan.
\<close>

fun min_loop :: "pyval \<Rightarrow> pyval list \<Rightarrow> exn + pyval" where
  "min_loop r [] = Inr r"
| "min_loop r (x # xs) = bindE (py_lt x r) (\<lambda>b. min_loop (if b then x else r) xs)"

fun max_loop :: "pyval \<Rightarrow> pyval list \<Rightarrow> exn + pyval" where
  "max_loop r [] = Inr r"
| "max_loop r (x # xs) = bindE (py_gt x r) (\<lambda>b. max_loop (if b then x else r) xs)"

definition py_min :: "pyval list \<Rightarrow> exn + pyval" where
  "py_min xs = (case xs of [] \<Rightarrow> Inl (ValueError ''min() arg is an empty sequence'')
                | x # rest \<Rightarrow> min_loop x rest)"

definition py_max :: "pyval list \<Rightarrow> exn + pyval" where
  "py_max xs = (case xs of [] \<Rightarrow> Inl (ValueError ''max() arg is an empty sequence'')
                | x # rest \<Rightarrow> max_loop x rest)"

text \<open>Equality never raises; values of different types are unequal.\<close>

fun py_eq :: "pyval \<Rightarrow> pyval \<Rightarrow> bool" where
  "py_eq (Num a) (Num b) = (a = b)"
| "py_eq (Str a) (Str b) = (a = b)"
| "py_eq _ _ = False"

text \<open>Arithmetic of a dynamically typed value with a float operand.\<close>

fun py_mul_float :: "pyval \<Rightarrow> real \<Rightarrow> exn + real" where
  "py_mul_float (Num a) c = Inr (a * c)"
| "py_mul_float (Str _) c =
     Inl (TypeError (''can'' @ apos @ ''t multiply sequence by non-int of type ''
                     @ apos @ ''float'' @ apos))"

definition unsupported_operand :: "string \<Rightarrow> string \<Rightarrow> string \<Rightarrow> exn" where
  "unsupported_operand opr l r =
     TypeError (''unsupported operand type(s) for '' @ opr @ '': '' @ apos @ l @ apos
                @ '' and '' @ apos @ r @ apos)"

fun py_sub_num :: "pyval \<Rightarrow> real \<Rightarrow> exn + real" where
  "py_sub_num (Num a) c = Inr (a - c)"
| "py_sub_num (Str _) c = Inl (unsupported_operand ''-'' ''str'' ''float'')"

fun py_add_num :: "pyval \<Rightarrow> real \<Rightarrow> exn + real" where
  "py_add_num (Num a) c = Inr (a + c)"
| "py_add_num (Str _) c =
     Inl (TypeError (''can only concatenate str (not '' @ dquote @ ''float'' @ dquote
                     @ '') to str''))"

text \<open>
  The float operations of the second half of \<^verbatim>\<open>calculate_y_axis_range\<close>, each with
  the rounding of the platform: \<^verbatim>\<open>math.log10\<close> on a positive float, \<^verbatim>\<open>10 ** k\<close> for
  a negative integer \<open>k\<close> (a float, \<open>0.0\<close> when it underflows), and the division,
  multiplication, subtraction and addition of floats (an integer operand is converted to
  a float first).
\<close>

record float_ops =
  flog10 :: "real \<Rightarrow> real"
  fpow10 :: "int \<Rightarrow> real"
  fdiv :: "real \<Rightarrow> real \<Rightarrow> real"
  fmul :: "real \<Rightarrow> real \<Rightarrow> real"
  fsub :: "real \<Rightarrow> real \<Rightarrow> real"
  fadd :: "real \<Rightarrow> real \<Rightarrow> real"

text \<open>
  A number that is a Python \<^verbatim>\<open>int\<close> or a \<^verbatim>\<open>float\<close>: integer arithmetic is exact,
  float arithmetic rounds.
\<close>

datatype pynum = PyInt int | PyFloat real

fun num_value :: "pynum \<Rightarrow> real" where
  "num_value (PyInt n) = of_int n"
| "num_value (PyFloat x) = x"

text \<open>\<^verbatim>\<open>10 ** k\<close> for an integer \<open>k\<close>: an integer when \<open>k \<ge> 0\<close>, a float otherwise.\<close>

definition pow10 :: "float_ops \<Rightarrow> int \<Rightarrow> pynum" where
  "pow10 fl k = (if 0 \<le> k then PyInt (10 ^ nat k) else PyFloat (fpow10 fl k))"

text \<open>\<^verbatim>\<open>n * u\<close> for an integer \<open>n\<close>, as in \<^verbatim>\<open>math.floor(q) * rounding_unit\<close>.\<close>

fun int_mul :: "float_ops \<Rightarrow> int \<Rightarrow> pynum \<Rightarrow> pynum" where
  "int_mul fl n (PyInt m) = PyInt (n * m)"
| "int_mul fl n (PyFloat x) = PyFloat (fmul fl (of_int n) x)"

fun num_sub :: "float_ops \<Rightarrow> pynum \<Rightarrow> pynum \<Rightarrow> pynum" where
  "num_sub fl (PyInt a) (PyInt b) = PyInt (a - b)"
| "num_sub fl a b = PyFloat (fsub fl (num_value a) (num_value b))"

fun num_add :: "float_ops \<Rightarrow> pynum \<Rightarrow> pynum \<Rightarrow> pynum" where
  "num_add fl (PyInt a) (PyInt b) = PyInt (a + b)"
| "num_add fl a b = PyFloat (fadd fl (num_value a) (num_value b))"

text \<open>\<^verbatim>\<open>v / c\<close>: true division, which raises when the divisor is zero.\<close>

fun py_div_num :: "float_ops \<Rightarrow> pyval \<Rightarrow> real \<Rightarrow> exn + real" where
  "py_div_num fl (Num a) c =
     (if c = 0 then Inl (OtherException ''float division by zero'')
      else Inr (fdiv fl a c))"
| "py_div_num fl (Str _) c = Inl (unsupported_operand ''/'' ''str'' ''float'')"

text \<open>\<^verbatim>\<open>math.log10\<close>: a type error on a string, a domain error outside \<open>(0, \<infinity>)\<close>.\<close>

fun math_log10 :: "float_ops \<Rightarrow> pyval \<Rightarrow> exn + real" where
  "math_log10 fl (Num a) =
     (if a \<le> 0 then Inl (ValueError ''math domain error'') else Inr (flog10 fl a))"
| "math_log10 fl (Str _) = Inl (TypeError ''must be real number, not str'')"

section \<open>The Y-axis range\<close>

text \<open>
  \<^verbatim>\<open>calculate_y_axis_range(predictions)\<close> of \<^verbatim>\<open>app.py\<close>. \<^verbatim>\<open>math.floor\<close> and
  \<^verbatim>\<open>math.ceil\<close> return integers, so the two bounds are integers when the rounding unit
  is one, and floats when it is a float. The comparison \<^verbatim>\<open>y_min == y_max\<close> is by value.
\<close>

definition calculate_y_axis_range :: "float_ops \<Rightarrow> pyval list \<Rightarrow> exn + (real \<times> real)" where
  "calculate_y_axis_range fl predictions =
     bindE (py_min predictions) (\<lambda>min_val.
     bindE (py_max predictions) (\<lambda>max_val.
       if py_eq min_val max_val then
         bindE (if \<not> py_eq min_val (Num 0)
                then map_sum id abs (py_mul_float min_val 0.1) else Inr 1) (\<lambda>padding.
         bindE (py_sub_num min_val padding) (\<lambda>lo.
         bindE (py_add_num max_val padding) (\<lambda>hi. Inr (lo, hi))))
       else
         bindE (math_log10 fl max_val) (\<lambda>l.
           let order_of_magnitude = \<lfloor>l\<rfloor>;
               rounding_unit = pow10 fl (order_of_magnitude - 1)
           in
             bindE (py_div_num fl min_val (num_value rounding_unit)) (\<lambda>qmin.
             bindE (py_div_num fl max_val (num_value rounding_unit)) (\<lambda>qmax.
               let y_min = int_mul fl \<lfloor>qmin\<rfloor> rounding_unit;
                   y_max = int_mul fl \<lceil>qmax\<rceil> rounding_unit
               in if num_value y_min = num_value y_max
                  then Inr (num_value (num_sub fl y_min rounding_unit),
                            num_value (num_add fl y_max rounding_unit))
                  else Inr (num_value y_min, num_value y_max))))))"

section \<open>Great-circle distance and the nearest station\<close>

text \<open>
  \<^verbatim>\<open>math.sqrt\<close> and \<^verbatim>\<open>math.asin\<close> raise \<^verbatim>\<open>ValueError\<close> outside their domains.
\<close>

definition math_radians :: "real \<Rightarrow> real" where
  "math_radians x = x * (pi / 180)"

definition math_sqrt :: "real \<Rightarrow> exn + real" where
  "math_sqrt x = (if x < 0 then Inl (ValueError ''math domain error'') else Inr (sqrt x))"

definition math_asin :: "real \<Rightarrow> exn + real" where
  "math_asin x =
     (if x < - 1 \<or> 1 < x then Inl (ValueError ''math domain error'') else Inr (arcsin x))"

definition haversine :: "real \<Rightarrow> real \<Rightarrow> real \<Rightarrow> real \<Rightarrow> exn + real" where
  "haversine lon1 lat1 lon2 lat2 =
     (let rlon1 = math_radians lon1; rlat1 = math_radians lat1;
          rlon2 = math_radians lon2; rlat2 = math_radians lat2;
          dlon = rlon2 - rlon1;
          dlat = rlat2 - rlat1;
          a = (sin (dlat / 2))\<^sup>2 + cos rlat1 * cos rlat2 * (sin (dlon / 2))\<^sup>2
      in bindE (math_sqrt a) (\<lambda>s.
         bindE (math_asin s) (\<lambda>t.
           let c = 2 * t; r = 6371 in Inr (c * r))))"

text \<open>
  \<^verbatim>\<open>metro_df\<close> after loading: one row per station, with numeric coordinates (rows
  whose coordinates are not numeric are dropped at load time).
\<close>

record metro =
  name :: string
  latitude :: real
  longitude :: real

text \<open>\<^verbatim>\<open>DataFrame.apply(f, axis=1)\<close>: \<open>f\<close> on every row in order; an exception ends it.\<close>

fun apply_rows :: "('a \<Rightarrow> exn + 'b) \<Rightarrow> 'a list \<Rightarrow> exn + 'b list" where
  "apply_rows f [] = Inr []"
| "apply_rows f (row # rows) =
     bindE (f row) (\<lambda>d. bindE (apply_rows f rows) (\<lambda>ds. Inr (d # ds)))"

text \<open>
  \<^verbatim>\<open>Series.idxmin()\<close>: the position of the minimum, the first one when several
  entries hold it. \<open>idxmin_from best bv i ds\<close> scans \<open>ds\<close>, whose head has position
  \<open>i\<close>, with the best position and value so far.
\<close>

fun idxmin_from :: "nat \<Rightarrow> real \<Rightarrow> nat \<Rightarrow> real list \<Rightarrow> nat" where
  "idxmin_from best bv i [] = best"
| "idxmin_from best bv i (d # ds) =
     (if d < bv then idxmin_from i d (Suc i) ds else idxmin_from best bv (Suc i) ds)"

definition idxmin :: "real list \<Rightarrow> exn + nat" where
  "idxmin ds = (case ds of
       [] \<Rightarrow> Inl (ValueError ''attempt to get argmin of an empty sequence'')
     | d # rest \<Rightarrow> Inr (idxmin_from 0 d 1 rest))"

definition loc :: "'a list \<Rightarrow> nat \<Rightarrow> exn + 'a" where
  "loc df i = (if i < length df then Inr (df ! i) else Inl (KeyError ''row label''))"

text \<open>\<^verbatim>\<open>find_closest_metro\<close>; the result \<open>None\<close> is Python's \<^verbatim>\<open>None\<close>.\<close>

definition find_closest_metro :: "metro list \<Rightarrow> real \<Rightarrow> real \<Rightarrow> exn + metro option" where
  "find_closest_metro metro_df user_lat user_lon =
     (if metro_df = [] then Inr None
      else
        bindE (apply_rows (\<lambda>row. haversine user_lon user_lat (longitude row) (latitude row))
                 metro_df) (\<lambda>distances.
        bindE (idxmin distances) (\<lambda>closest_idx.
        bindE (loc metro_df closest_idx) (\<lambda>row. Inr (Some row)))))"

section \<open>Data frames\<close>

text \<open>
  A \<^verbatim>\<open>DataFrame\<close> is its number of rows and its columns in order, each a name
  with one value per row.
\<close>

record frame =
  nrows :: nat
  cols :: "(string \<times> pyval list) list"

definition columns :: "frame \<Rightarrow> string list" where
  "columns df = map fst (cols df)"

text \<open>
  \<^verbatim>\<open>df[c] = v\<close> for a scalar \<open>v\<close>: every row of column \<open>c\<close> becomes \<open>v\<close>; a new
  column goes last.
\<close>

definition df_set_col :: "frame \<Rightarrow> string \<Rightarrow> pyval list \<Rightarrow> frame" where
  "df_set_col df c vs =
     (if c \<in> set (columns df)
      then df\<lparr>cols := map (\<lambda>(k, old). if k = c then (k, vs) else (k, old)) (cols df)\<rparr>
      else df\<lparr>cols := cols df @ [(c, vs)]\<rparr>)"

definition df_set_scalar :: "frame \<Rightarrow> string \<Rightarrow> pyval \<Rightarrow> frame" where
  "df_set_scalar df c v = df_set_col df c (replicate (nrows df) v)"

text \<open>
  \<^verbatim>\<open>df[names]\<close>: the named columns in the order asked for; \<^verbatim>\<open>KeyError\<close> when one
  is absent (the model reports the first such name).
\<close>

fun select_cols :: "(string \<times> pyval list) list \<Rightarrow> string list
    \<Rightarrow> exn + (string \<times> pyval list) list" where
  "select_cols cs [] = Inr []"
| "select_cols cs (c # names) =
     (case map_of cs c of
        None \<Rightarrow> Inl (KeyError c)
      | Some vs \<Rightarrow> bindE (select_cols cs names) (\<lambda>rest. Inr ((c, vs) # rest)))"

definition df_select :: "frame \<Rightarrow> string list \<Rightarrow> exn + frame" where
  "df_select df names =
     bindE (select_cols (cols df) names) (\<lambda>cs. Inr \<lparr>nrows = nrows df, cols = cs\<rparr>)"

text \<open>
  \<^verbatim>\<open>df[names] = data\<close> for a two-dimensional array \<open>data\<close> (a list of rows): the
  shape has to be rows by names; column \<open>j\<close> of the array becomes the column
  \<open>names ! j\<close>.
\<close>

definition df_assign :: "frame \<Rightarrow> string list \<Rightarrow> real list list \<Rightarrow> exn + frame" where
  "df_assign df names data =
     (if length data = nrows df \<and> (\<forall>row \<in> set data. length row = length names)
      then Inr (fold (\<lambda>j d. df_set_col d (names ! j) (map (\<lambda>row. Num (row ! j)) data))
                  [0 ..< length names] df)
      else Inl (ValueError ''Columns must be same length as key''))"

section \<open>The inference routine\<close>

text \<open>
  What \<^verbatim>\<open>joblib.load\<close> can return. The fitted objects are opaque: a scaler is its
  \<^verbatim>\<open>transform\<close> (a frame to a two-dimensional array, or an exception), an estimator
  is its attributes \<^verbatim>\<open>feature_names_in_\<close> and \<^verbatim>\<open>feature_names_\<close>, either of which it
  may lack, and its \<^verbatim>\<open>predict\<close> (a frame to one number per row, or an exception).
\<close>

datatype artifact =
    FeatureList "string list"
  | Scaler "frame \<Rightarrow> exn + real list list"
  | Estimator "string list option" "string list option" "frame \<Rightarrow> exn + real list"

text \<open>
  The world the two modules run in: the model directory's files (\<open>None\<close> for a file
  that does not exist, \<open>Some (Inl e)\<close> for one that fails to load), the location of the
  program, \<^verbatim>\<open>traceback.format_exc()\<close>, the formatting \<^verbatim>\<open>f"{x:,.2f}"\<close>, the parsers
  behind \<^verbatim>\<open>float(s)\<close> and \<^verbatim>\<open>int(s)\<close>, today's year, the loaded station table and
  the float operations of the platform.
\<close>

record env =
  files :: "string \<Rightarrow> (exn + artifact) option"
  meipass :: "string option"
  script_dir :: string
  format_exc :: "exn \<Rightarrow> string"
  format_price :: "real \<Rightarrow> string"
  parse_float :: "string \<Rightarrow> real option"
  parse_int :: "string \<Rightarrow> int option"
  today_year :: int
  metro_df :: "metro list"
  arith :: float_ops

text \<open>\<^verbatim>\<open>os.path.join\<close> of two components (POSIX).\<close>

definition os_path_join :: "string \<Rightarrow> string \<Rightarrow> string" where
  "os_path_join a b =
     (if take 1 b = ''/'' then b
      else if a = [] \<or> last a = CHR ''/'' then a @ b
      else a @ ''/'' @ b)"

definition resource_path :: "env \<Rightarrow> string \<Rightarrow> string" where
  "resource_path ev filename_in_model_dir =
     (let model_folder_path =
            (case meipass ev of
               Some base_bundle_dir \<Rightarrow> os_path_join base_bundle_dir ''model''
             | None \<Rightarrow> os_path_join (os_path_join (script_dir ev) ''..'') ''model'')
      in os_path_join model_folder_path filename_in_model_dir)"

definition joblib_load :: "env \<Rightarrow> string \<Rightarrow> exn + artifact" where
  "joblib_load ev path =
     (case files ev path of None \<Rightarrow> Inl (FileNotFoundError path) | Some r \<Rightarrow> r)"

definition no_attribute :: "string \<Rightarrow> exn" where
  "no_attribute attr = AttributeError (''object has no attribute '' @ apos @ attr @ apos)"

text \<open>Attribute access on a loaded object.\<close>

fun get_transform :: "artifact \<Rightarrow> exn + (frame \<Rightarrow> exn + real list list)" where
  "get_transform (Scaler t) = Inr t"
| "get_transform _ = Inl (no_attribute ''transform'')"

fun get_predict :: "artifact \<Rightarrow> exn + (frame \<Rightarrow> exn + real list)" where
  "get_predict (Estimator _ _ p) = Inr p"
| "get_predict _ = Inl (no_attribute ''predict'')"

fun get_feature_names_in :: "artifact \<Rightarrow> exn + string list" where
  "get_feature_names_in (Estimator (Some ns) _ _) = Inr ns"
| "get_feature_names_in _ = Inl (no_attribute ''feature_names_in_'')"

fun get_feature_names :: "artifact \<Rightarrow> exn + string list" where
  "get_feature_names (Estimator _ (Some ns) _) = Inr ns"
| "get_feature_names _ = Inl (no_attribute ''feature_names_'')"

text \<open>\<^verbatim>\<open>xs[0]\<close> on the array a \<^verbatim>\<open>predict\<close> returns.\<close>

definition first_item :: "real list \<Rightarrow> exn + real" where
  "first_item xs = (case xs of
       [] \<Rightarrow> Inl (IndexError ''index 0 is out of bounds for axis 0 with size 0'')
     | x # _ \<Rightarrow> Inr x)"

text \<open>
  Step 2, the loop \<^verbatim>\<open>for col in num_cols_to_scale: if col not in processed_df.columns:
  processed_df[col] = 0\<close>.
\<close>

fun fill_missing :: "string list \<Rightarrow> frame \<Rightarrow> frame" where
  "fill_missing [] processed_df = processed_df"
| "fill_missing (col # rest) processed_df =
     fill_missing rest
       (if col \<notin> set (columns processed_df)
        then df_set_scalar processed_df col (Num 0) else processed_df)"

text \<open>
  Step 2 as a whole. An empty list is falsy and skips the scaling; an object that is not
  a list is truthy and fails when the loop iterates over it.
\<close>

definition apply_scaling :: "artifact \<Rightarrow> artifact \<Rightarrow> frame \<Rightarrow> exn + frame" where
  "apply_scaling scaler num_cols_to_scale processed_df =
     (case num_cols_to_scale of
        FeatureList names \<Rightarrow>
          if names \<noteq> [] then
            let filled = fill_missing names processed_df in
            bindE (df_select filled names) (\<lambda>data_to_scale.
            bindE (get_transform scaler) (\<lambda>transform.
            bindE (transform data_to_scale) (\<lambda>scaled_data.
              df_assign filled names scaled_data)))
          else Inr processed_df
      | _ \<Rightarrow> Inl (TypeError ''object is not iterable''))"

text \<open>Step 3, the loop that loads the base models, in the order of the list.\<close>

fun load_models :: "env \<Rightarrow> string list \<Rightarrow> exn + (string \<times> artifact) list" where
  "load_models ev [] = Inr []"
| "load_models ev (model_name # rest) =
     bindE (joblib_load ev (resource_path ev (model_name @ ''.joblib''))) (\<lambda>m.
     bindE (load_models ev rest) (\<lambda>ms. Inr ((model_name, m) # ms)))"

text \<open>
  Step 5, \<^verbatim>\<open>model.predict(processed_df[model.feature_names_in_])[0]\<close> for every base
  model, in insertion order of the dictionary.
\<close>

definition predict_one :: "artifact \<Rightarrow> frame \<Rightarrow> exn + real" where
  "predict_one model processed_df =
     bindE (get_predict model) (\<lambda>predict.
     bindE (get_feature_names_in model) (\<lambda>names.
     bindE (df_select processed_df names) (\<lambda>x.
     bindE (predict x) first_item)))"

fun base_predict :: "(string \<times> artifact) list \<Rightarrow> frame \<Rightarrow> exn + (string \<times> real) list" where
  "base_predict [] processed_df = Inr []"
| "base_predict ((model_name, model) # rest) processed_df =
     bindE (predict_one model processed_df) (\<lambda>pred.
     bindE (base_predict rest processed_df) (\<lambda>preds. Inr ((model_name, pred) # preds)))"

text \<open>Step 6, the one-row frame of base predictions and the meta model on it.\<close>

definition meta_predict :: "artifact \<Rightarrow> (string \<times> real) list \<Rightarrow> exn + real" where
  "meta_predict meta_model base_predictions =
     (let meta_features_df =
            \<lparr>nrows = 1, cols = map (\<lambda>(k, v). (k, [Num v])) base_predictions\<rparr>
      in bindE (get_predict meta_model) (\<lambda>predict.
         bindE (get_feature_names meta_model) (\<lambda>names.
         bindE (df_select meta_features_df names) (\<lambda>x.
         bindE (predict x) first_item))))"

text \<open>The body of the \<^verbatim>\<open>try\<close> block of \<^verbatim>\<open>get_prediction\<close>.\<close>

definition predict_try :: "env \<Rightarrow> frame \<Rightarrow> bool \<Rightarrow> exn + pyval" where
  "predict_try ev input_df raw_output =
     bindE (joblib_load ev (resource_path ev ''scaler.joblib'')) (\<lambda>scaler.
     bindE (joblib_load ev (resource_path ev ''scaled_features_list.joblib''))
       (\<lambda>num_cols_to_scale.
     bindE (apply_scaling scaler num_cols_to_scale input_df) (\<lambda>processed_df.
     bindE (load_models ev [''random_forest'', ''xgboost'', ''linear_reg'']) (\<lambda>models.
     bindE (joblib_load ev (resource_path ev ''meta_model.joblib'')) (\<lambda>meta_model.
     bindE (base_predict models processed_df) (\<lambda>base_predictions.
     bindE (meta_predict meta_model base_predictions) (\<lambda>final_prediction.
       if raw_output then Inr (Num final_prediction)
       else Inr (Str (format_price ev final_prediction @ '' AED'')))))))))"

text \<open>\<^verbatim>\<open>str(e)\<close>.\<close>

fun str_exn :: "exn \<Rightarrow> string" where
  "str_exn (FileNotFoundError f) =
     ''[Errno 2] No such file or directory: '' @ apos @ f @ apos"
| "str_exn (ValueError m) = m"
| "str_exn (TypeError m) = m"
| "str_exn (KeyError m) = m"
| "str_exn (IndexError m) = m"
| "str_exn (AttributeError m) = m"
| "str_exn (OtherException m) = m"

definition missing_file_msg :: "string \<Rightarrow> string" where
  "missing_file_msg f =
     ''Error: A required model file was not found. Please check your '' @ apos @ ''model''
     @ apos @ '' directory. Missing file: '' @ f"

definition unexpected_msg :: "env \<Rightarrow> exn \<Rightarrow> string" where
  "unexpected_msg ev e =
     ''An unexpected error occurred in prediction: '' @ str_exn e @ [CHR 0x0A]
     @ format_exc ev e"

text \<open>
  \<^verbatim>\<open>get_prediction\<close>: the two \<^verbatim>\<open>except\<close> clauses in their order; each returns the
  message it built (and prints it, which the model leaves out).
\<close>

definition get_prediction :: "env \<Rightarrow> frame \<Rightarrow> bool \<Rightarrow> pyval" where
  "get_prediction ev input_df raw_output =
     (case predict_try ev input_df raw_output of
        Inr v \<Rightarrow> v
      | Inl (FileNotFoundError f) \<Rightarrow> Str (missing_file_msg f)
      | Inl e \<Rightarrow> Str (unexpected_msg ev e))"

section \<open>The request handler\<close>

text \<open>\<^verbatim>\<open>str(y)\<close> for an integer: its decimal digits.\<close>

definition digit_char :: "nat \<Rightarrow> char" where
  "digit_char d = ''0123456789'' ! d"

fun digits_nat :: "nat \<Rightarrow> string" where
  "digits_nat n =
     (if n < 10 then [digit_char n]
      else digits_nat (n div 10) @ [digit_char (n mod 10)])"

declare digits_nat.simps [simp del]

definition str_int :: "int \<Rightarrow> string" where
  "str_int i = (if i < 0 then ''-'' @ digits_nat (nat (- i)) else digits_nat (nat i))"

text \<open>
  \<^verbatim>\<open>float(form_data.get(key, default))\<close> and \<^verbatim>\<open>int(form_data.get(key, default))\<close>:
  the default is a number already; a string that does not parse raises \<^verbatim>\<open>ValueError\<close>.
\<close>

definition form_float :: "env \<Rightarrow> (string \<rightharpoonup> string) \<Rightarrow> string \<Rightarrow> real \<Rightarrow> exn + real" where
  "form_float ev form_data key dflt =
     (case form_data key of
        None \<Rightarrow> Inr dflt
      | Some s \<Rightarrow> (case parse_float ev s of
           None \<Rightarrow> Inl (ValueError (''could not convert string to float: '' @ apos @ s @ apos))
         | Some r \<Rightarrow> Inr r))"

definition form_int :: "env \<Rightarrow> (string \<rightharpoonup> string) \<Rightarrow> string \<Rightarrow> int \<Rightarrow> exn + int" where
  "form_int ev form_data key dflt =
     (case form_data key of
        None \<Rightarrow> Inr dflt
      | Some s \<Rightarrow> (case parse_int ev s of
           None \<Rightarrow> Inl (ValueError (''invalid literal for int() with base 10: ''
                                    @ apos @ s @ apos))
         | Some r \<Rightarrow> Inr r))"

record request =
  request_method :: string
  form :: "string \<rightharpoonup> string"

text \<open>
  \<^verbatim>\<open>projection_data\<close>: the four entries of a projection (\<open>pvalues\<close> is the entry
  \<^verbatim>\<open>values\<close>), or the entry \<^verbatim>\<open>error\<close>.
\<close>

datatype projection =
    Projection (labels: "string list") (pvalues: "pyval list") (y_min: real) (y_max: real)
  | Error string

text \<open>What \<^verbatim>\<open>index\<close> hands to the template.\<close>

record page =
  projection_data :: "projection option"
  form_data :: "string \<rightharpoonup> string"
  closest_metro_name :: "string option"

text \<open>The frame \<^verbatim>\<open>base_df\<close> of one row.\<close>

definition base_df :: "metro \<Rightarrow> int \<Rightarrow> real \<Rightarrow> real \<Rightarrow> frame" where
  "base_df closest_metro rooms user_lat user_lon =
     \<lparr>nrows = 1,
      cols = [(''area_name_en'', [Str (name closest_metro)]),
              (''rooms_en'', [Num (of_int rooms)]),
              (''latitude'', [Num user_lat]),
              (''longitude'', [Num user_lon]),
              (''latitude_metro'', [Num (latitude closest_metro)]),
              (''longitude_metro'', [Num (longitude closest_metro)])]\<rparr>"

definition years_to_predict :: "int \<Rightarrow> int list" where
  "years_to_predict current_year = [current_year ..  current_year + 3]"

text \<open>
  The first part of the \<^verbatim>\<open>try\<close> block, up to the nearest station; nothing but
  \<^verbatim>\<open>form_data\<close> is assigned before it ends.
\<close>

definition locate :: "env \<Rightarrow> (string \<rightharpoonup> string) \<Rightarrow> exn + (real \<times> real \<times> metro)" where
  "locate ev fd =
     bindE (form_float ev fd ''latitude'' 25.2048) (\<lambda>user_lat.
     bindE (form_float ev fd ''longitude'' 55.2708) (\<lambda>user_lon.
     bindE (find_closest_metro (metro_df ev) user_lat user_lon) (\<lambda>closest_metro.
       case closest_metro of
         None \<Rightarrow> Inl (ValueError ''Could not find closest metro. Check data file.'')
       | Some m \<Rightarrow> Inr (user_lat, user_lon, m))))"

text \<open>
  The rest of the \<^verbatim>\<open>try\<close> block, after \<^verbatim>\<open>closest_metro_name\<close> is assigned: the
  four calls of \<^verbatim>\<open>get_prediction\<close> (which returns in every case), the range and the
  dictionary.
\<close>

definition project :: "env \<Rightarrow> (string \<rightharpoonup> string) \<Rightarrow> real \<Rightarrow> real \<Rightarrow> metro \<Rightarrow> exn + projection" where
  "project ev fd user_lat user_lon closest_metro =
     bindE (form_int ev fd ''rooms'' 1) (\<lambda>rooms.
       let df = base_df closest_metro rooms user_lat user_lon;
           years = years_to_predict (today_year ev);
           predictions =
             map (\<lambda>year. get_prediction ev (df_set_scalar df ''year'' (Num (of_int year))) True)
               years
       in bindE (calculate_y_axis_range (arith ev) predictions) (\<lambda>(y_axis_min, y_axis_max).
            Inr (Projection (map str_int years) predictions y_axis_min y_axis_max)))"

definition error_data :: "exn \<Rightarrow> projection" where
  "error_data e = Error (''Error: '' @ str_exn e)"

definition index :: "env \<Rightarrow> request \<Rightarrow> page" where
  "index ev req =
     (if request_method req = ''POST'' then
        (case locate ev (form req) of
           Inl e \<Rightarrow>
             \<lparr>projection_data = Some (error_data e), form_data = form req,
              closest_metro_name = None\<rparr>
         | Inr (user_lat, user_lon, closest_metro) \<Rightarrow>
             \<lparr>projection_data =
                Some (case project ev (form req) user_lat user_lon closest_metro of
                        Inl e \<Rightarrow> error_data e
                      | Inr p \<Rightarrow> p),
              form_data = form req,
              closest_metro_name = Some (name closest_metro)\<rparr>)
      else \<lparr>projection_data = None, form_data = Map.empty, closest_metro_name = None\<rparr>)"

section \<open>A sample installation\<close>

text \<open>
  A concrete world to run the model in: the program lives in \<^verbatim>\<open>/app/src\<close>, the model
  directory holds the six files, and the fitted objects are small stand-ins. The scaler
  returns its input unchanged; an estimator returns, for every row, the value of one of
  its columns. Its float operations are the exact ones: on the values of the samples
  below the floats of the platform give the same results.
\<close>

definition exact_ops :: float_ops where
  "exact_ops =
     \<lparr>flog10 = log 10, fpow10 = (\<lambda>k. 10 powi k), fdiv = (\<lambda>a b. a / b),
      fmul = (\<lambda>a b. a * b), fsub = (\<lambda>a b. a - b), fadd = (\<lambda>a b. a + b)\<rparr>"

text \<open>
  A coarse arithmetic to show what rounding does: every result but the logarithm is
  rounded to the nearest sixteenth, as a number format with four binary places after
  the point would.
\<close>

definition round_sixteenth :: "real \<Rightarrow> real" where
  "round_sixteenth x = of_int \<lfloor>x * 16 + 1 / 2\<rfloor> / 16"

definition coarse_ops :: float_ops where
  "coarse_ops =
     \<lparr>flog10 = log 10, fpow10 = (\<lambda>k. round_sixteenth (10 powi k)),
      fdiv = (\<lambda>a b. round_sixteenth (a / b)), fmul = (\<lambda>a b. round_sixteenth (a * b)),
      fsub = (\<lambda>a b. round_sixteenth (a - b)), fadd = (\<lambda>a b. round_sixteenth (a + b))\<rparr>"

fun num_of :: "pyval \<Rightarrow> real" where
  "num_of (Num r) = r"
| "num_of (Str _) = 0"

definition sample_transform :: "frame \<Rightarrow> exn + real list list" where
  "sample_transform x =
     Inr (map (\<lambda>i. map (\<lambda>(k, vs). num_of (vs ! i)) (cols x)) [0 ..< nrows x])"

definition sample_predict :: "string \<Rightarrow> frame \<Rightarrow> exn + real list" where
  "sample_predict col x =
     (case map_of (cols x) col of
        Some vs \<Rightarrow> Inr (map num_of vs)
      | None \<Rightarrow> Inl (KeyError col))"

definition sample_files :: "string \<Rightarrow> (exn + artifact) option" where
  "sample_files =
     [''/app/src/../model/scaler.joblib'' \<mapsto> Inr (Scaler sample_transform),
      ''/app/src/../model/scaled_features_list.joblib'' \<mapsto>
         Inr (FeatureList [''rooms_en'', ''distance_km'']),
      ''/app/src/../model/random_forest.joblib'' \<mapsto>
         Inr (Estimator (Some [''year'']) None (sample_predict ''year'')),
      ''/app/src/../model/xgboost.joblib'' \<mapsto>
         Inr (Estimator (Some [''rooms_en'']) None (sample_predict ''rooms_en'')),
      ''/app/src/../model/linear_reg.joblib'' \<mapsto>
         Inr (Estimator (Some [''distance_km'']) None (sample_predict ''distance_km'')),
      ''/app/src/../model/meta_model.joblib'' \<mapsto>
         Inr (Estimator None (Some [''random_forest''])
                (sample_predict ''random_forest''))]"

definition sample_station :: metro where
  "sample_station = \<lparr>name = ''Union'', latitude = 26, longitude = 56\<rparr>"

definition sample_env :: env where
  "sample_env =
     \<lparr>files = sample_files, meipass = None, script_dir = ''/app/src'',
      format_exc = (\<lambda>e. ''Traceback (most recent call last)''),
      format_price = (\<lambda>x. ''0.00''),
      parse_float = [''25'' \<mapsto> 25, ''55'' \<mapsto> 55],
      parse_int = [''2'' \<mapsto> 2],
      today_year = 2025,
      metro_df = [sample_station],
      arith = exact_ops\<rparr>"

definition sample_request :: request where
  "sample_request =
     \<lparr>request_method = ''POST'',
      form = [''latitude'' \<mapsto> ''25'', ''longitude'' \<mapsto> ''55'', ''rooms'' \<mapsto> ''2'']\<rparr>"

text \<open>The same installation with one file of the model directory deleted.\<close>

definition without_file :: "env \<Rightarrow> string \<Rightarrow> env" where
  "without_file ev path = ev\<lparr>files := (files ev)(path := None)\<rparr>"

text \<open>The same installation with another station table.\<close>

definition with_stations :: "env \<Rightarrow> metro list \<Rightarrow> env" where
  "with_stations ev stations = ev\<lparr>metro_df := stations\<rparr>"

definition model_files :: "string list" where
  "model_files =
     [''scaler.joblib'', ''scaled_features_list.joblib'', ''random_forest.joblib'',
      ''xgboost.joblib'', ''linear_reg.joblib'', ''meta_model.joblib'']"

section \<open>Properties of the Y-axis range\<close>

lemma bindE_Inr [simp]: "bindE (Inr x) f = f x"
  by (simp add: bindE_def)

lemma bindE_Inl [simp]: "bindE (Inl e) f = Inl e"
  by (simp add: bindE_def)

lemma min_loop_const:
  "\<forall>x \<in> set xs. x = Num v \<Longrightarrow> min_loop (Num v) xs = Inr (Num v)"
  by (induction xs) auto

lemma max_loop_const:
  "\<forall>x \<in> set xs. x = Num v \<Longrightarrow> max_loop (Num v) xs = Inr (Num v)"
  by (induction xs) auto

lemma py_min_const:
  "xs \<noteq> [] \<Longrightarrow> \<forall>x \<in> set xs. x = Num v \<Longrightarrow> py_min xs = Inr (Num v)"
  by (cases xs) (auto simp: py_min_def min_loop_const)

lemma py_max_const:
  "xs \<noteq> [] \<Longrightarrow> \<forall>x \<in> set xs. x = Num v \<Longrightarrow> py_max xs = Inr (Num v)"
  by (cases xs) (auto simp: py_max_def max_loop_const)

lemma min_loop_Num: "min_loop (Num r) (map Num vs) = Inr (Num (fold min vs r))"
proof (induction vs arbitrary: r)
  case Nil
  show ?case by simp
next
  case (Cons v vs)
  have "(if v < r then v else r) = min v r" by (simp add: min_def)
  then show ?case by (simp add: Cons.IH)
qed

lemma max_loop_Num: "max_loop (Num r) (map Num vs) = Inr (Num (fold max vs r))"
proof (induction vs arbitrary: r)
  case Nil
  show ?case by simp
next
  case (Cons v vs)
  have "(if r < v then v else r) = max v r" by (simp add: max_def)
  then show ?case by (simp add: Cons.IH)
qed

lemma py_min_Num:
  assumes "vs \<noteq> []"
  shows "py_min (map Num vs) = Inr (Num (Min (set vs)))"
proof (cases vs)
  case Nil
  with assms show ?thesis by simp
next
  case (Cons a list)
  then show ?thesis
    using Min.set_eq_fold [of a list] by (simp add: py_min_def min_loop_Num)
qed

lemma py_max_Num:
  assumes "vs \<noteq> []"
  shows "py_max (map Num vs) = Inr (Num (Max (set vs)))"
proof (cases vs)
  case Nil
  with assms show ?thesis by simp
next
  case (Cons a list)
  then show ?thesis
    using Max.set_eq_fold [of a list] by (simp add: py_max_def max_loop_Num)
qed

lemma range_of_min_max:
  assumes "py_min xs = Inr (Num mn)" "py_max xs = Inr (Num mx)" "mn \<noteq> mx" "0 < mx"
  shows "calculate_y_axis_range fl xs =
     (let magnitude = \<lfloor>flog10 fl mx\<rfloor>;
          unit = pow10 fl (magnitude - 1)
      in if num_value unit = 0 then Inl (OtherException ''float division by zero'')
         else
           let lo = int_mul fl \<lfloor>fdiv fl mn (num_value unit)\<rfloor> unit;
               hi = int_mul fl \<lceil>fdiv fl mx (num_value unit)\<rceil> unit
           in if num_value lo = num_value hi
              then Inr (num_value (num_sub fl lo unit), num_value (num_add fl hi unit))
              else Inr (num_value lo, num_value hi))"
  using assms by (simp add: calculate_y_axis_range_def Let_def)

lemma range_of_distinct:
  assumes "vs \<noteq> []" "Min (set vs) \<noteq> Max (set vs)" "0 < Max (set vs)"
  shows "calculate_y_axis_range fl (map Num vs) =
     (let magnitude = \<lfloor>flog10 fl (Max (set vs))\<rfloor>;
          unit = pow10 fl (magnitude - 1)
      in if num_value unit = 0 then Inl (OtherException ''float division by zero'')
         else
           let lo = int_mul fl \<lfloor>fdiv fl (Min (set vs)) (num_value unit)\<rfloor> unit;
               hi = int_mul fl \<lceil>fdiv fl (Max (set vs)) (num_value unit)\<rceil> unit
           in if num_value lo = num_value hi
              then Inr (num_value (num_sub fl lo unit), num_value (num_add fl hi unit))
              else Inr (num_value lo, num_value hi))"
  by (rule range_of_min_max
        [OF py_min_Num [OF assms(1)] py_max_Num [OF assms(1)] assms(2) assms(3)])

text \<open>With the exact operations the range is the one of real arithmetic.\<close>

lemma exact_ops_fields:
  "flog10 exact_ops = log 10"
  "fpow10 exact_ops = (\<lambda>k. 10 powi k)"
  "fdiv exact_ops = (\<lambda>a b. a / b)"
  "fmul exact_ops = (\<lambda>a b. a * b)"
  "fsub exact_ops = (\<lambda>a b. a - b)"
  "fadd exact_ops = (\<lambda>a b. a + b)"
  by (simp_all add: exact_ops_def)

lemma pow10_exact: "num_value (pow10 exact_ops k) = 10 powi k"
  by (simp add: pow10_def exact_ops_fields power_int_def)

lemma int_mul_exact: "num_value (int_mul exact_ops n u) = of_int n * num_value u"
  by (cases u) (simp_all add: exact_ops_fields)

lemma num_sub_exact: "num_value (num_sub exact_ops a b) = num_value a - num_value b"
  by (cases a; cases b) (simp_all add: exact_ops_fields)

lemma num_add_exact: "num_value (num_add exact_ops a b) = num_value a + num_value b"
  by (cases a; cases b) (simp_all add: exact_ops_fields)

lemma range_exact:
  assumes "vs \<noteq> []" "Min (set vs) \<noteq> Max (set vs)" "0 < Max (set vs)"
  shows "calculate_y_axis_range exact_ops (map Num vs) =
     (let magnitude = \<lfloor>log 10 (Max (set vs))\<rfloor>;
          unit = 10 powi (magnitude - 1);
          lo = of_int \<lfloor>Min (set vs) / unit\<rfloor> * unit;
          hi = of_int \<lceil>Max (set vs) / unit\<rceil> * unit
      in if lo = hi then Inr (lo - unit, hi + unit) else Inr (lo, hi))"
  unfolding range_of_distinct [OF assms] Let_def
  by (simp add: pow10_exact int_mul_exact num_sub_exact num_add_exact exact_ops_fields)

text \<open>
  Rounding down and up to a multiple of a positive unit: the results are the multiples
  of the unit next to the value.
\<close>

lemma round_down_multiple:
  fixes x u :: real
  assumes "0 < u"
  shows "of_int \<lfloor>x / u\<rfloor> * u \<le> x \<and> x < of_int \<lfloor>x / u\<rfloor> * u + u"
proof -
  have "of_int \<lfloor>x / u\<rfloor> \<le> x / u" and "x / u < of_int \<lfloor>x / u\<rfloor> + 1"
    by linarith+
  then have "of_int \<lfloor>x / u\<rfloor> * u \<le> x" and "x < (of_int \<lfloor>x / u\<rfloor> + 1) * u"
    using assms pos_le_divide_eq [of u "of_int \<lfloor>x / u\<rfloor>" x]
      pos_divide_less_eq [of u x "of_int \<lfloor>x / u\<rfloor> + 1"] by blast+
  then show ?thesis
    by (simp add: distrib_right)
qed

lemma round_up_multiple:
  fixes x u :: real
  assumes "0 < u"
  shows "x \<le> of_int \<lceil>x / u\<rceil> * u \<and> of_int \<lceil>x / u\<rceil> * u - u < x"
proof -
  have "x / u \<le> of_int \<lceil>x / u\<rceil>" and "of_int \<lceil>x / u\<rceil> - 1 < x / u"
    by linarith+
  then have "x \<le> of_int \<lceil>x / u\<rceil> * u" and "(of_int \<lceil>x / u\<rceil> - 1) * u < x"
    using assms pos_divide_le_eq [of u x "of_int \<lceil>x / u\<rceil>"]
      pos_less_divide_eq [of u "of_int \<lceil>x / u\<rceil> - 1" x] by blast+
  then show ?thesis
    by (simp add: left_diff_distrib)
qed

text \<open>
  With exact operations the two rounded bounds of distinct values never coincide. With
  rounding they can: the quotients of two close values by the unit may round to the same
  integer, and then the last branch is taken (\<open>coarse_collapse\<close> below); and a power of
  ten that underflows to zero makes the division raise (\<open>coarse_underflow\<close>).
\<close>

lemma rounded_bounds_differ:
  fixes mn mx u :: real
  assumes "0 < u" "mn < mx"
  shows "of_int \<lfloor>mn / u\<rfloor> * u < of_int \<lceil>mx / u\<rceil> * u"
  using round_down_multiple [OF assms(1), of mn] round_up_multiple [OF assms(1), of mx] assms(2)
  by linarith

lemma coarse_ops_fields:
  "flog10 coarse_ops = log 10"
  "fpow10 coarse_ops = (\<lambda>k. round_sixteenth (10 powi k))"
  "fdiv coarse_ops = (\<lambda>a b. round_sixteenth (a / b))"
  "fmul coarse_ops = (\<lambda>a b. round_sixteenth (a * b))"
  "fsub coarse_ops = (\<lambda>a b. round_sixteenth (a - b))"
  "fadd coarse_ops = (\<lambda>a b. round_sixteenth (a + b))"
  by (simp_all add: coarse_ops_def)

lemma coarse_collapse:
  "calculate_y_axis_range coarse_ops [Num (1919 / 16), Num (1921 / 16)] = Inr (110, 130)"
proof -
  have "\<lfloor>log 10 (1921 / 16)\<rfloor> = (2::int)"
    by (simp add: floor_log_eq_powr_iff)
  then show ?thesis
    using range_of_distinct [of "[1919 / 16, 1921 / 16]" coarse_ops]
    by (simp add: Let_def coarse_ops_fields pow10_def round_sixteenth_def)
qed

lemma coarse_underflow:
  "calculate_y_axis_range coarse_ops [Num (1 / 4), Num (1 / 2)] =
     Inl (OtherException ''float division by zero'')"
proof -
  have "\<lfloor>log 10 (1 / 2)\<rfloor> = (- 1::int)"
    by (simp add: floor_log_eq_powr_iff powr_minus)
  moreover have "\<lfloor>(1 / 10)\<^sup>2 * 16 + 1 / 2 :: real\<rfloor> = 0"
    by (simp add: floor_eq_iff power2_eq_square)
  then have "fpow10 coarse_ops (- 2) = 0"
    by (simp add: coarse_ops_fields round_sixteenth_def power_int_def)
  ultimately show ?thesis
    using range_of_distinct [of "[1 / 4, 1 / 2]" coarse_ops]
    by (simp add: Let_def pow10_def coarse_ops_fields(1))
qed

text \<open>
  Where the library's logarithm of a maximum just below 1000 is rounded up to 3, the unit
  is 100 and not 10.
\<close>

lemma range_with_log10_rounded_up:
  assumes "950 < mx" "flog10 fl mx = 3" "fdiv fl 950 100 = 9.5" "\<lceil>fdiv fl mx 100\<rceil> = 10"
  shows "calculate_y_axis_range fl [Num 950, Num mx] = Inr (900, 1000)"
proof -
  have "Min (set [950, mx]) = 950" "Max (set [950, mx]) = mx"
    using assms(1) by simp_all
  then show ?thesis
    using range_of_distinct [of "[950, mx]" fl] assms
    by (simp add: Let_def pow10_def)
qed

lemma log10_1050_bounds: "3 \<le> log 10 1050 \<and> log 10 1050 < 4"
proof -
  have "\<lfloor>log 10 1050\<rfloor> = (3::int)"
    by (simp add: floor_log_eq_powr_iff)
  then show ?thesis
    by (simp add: floor_eq_iff)
qed

text \<open>
  C1. When the smallest and the largest prediction differ and the largest is positive,
  the range is computed in these steps, each operation being the platform's: the
  magnitude is the floor of \<^verbatim>\<open>math.log10\<close> of the largest value, the unit is
  \<^verbatim>\<open>10 ** (magnitude - 1)\<close>, the lower bound is \<^verbatim>\<open>math.floor(min / unit) * unit\<close> and
  the upper bound \<^verbatim>\<open>math.ceil(max / unit) * unit\<close>; when the two bounds are equal, each
  moves outward by one unit. A unit that has underflowed to zero makes the division
  raise. For 950 and 1050, where the logarithm lies between 3 and 4 and the quotients 9.5
  and 10.5 are exact, the range is 900 to 1100.
\<close>

theorem y_axis_range_rounds_to_unit:
  "(vs \<noteq> [] \<and> Min (set vs) \<noteq> Max (set vs) \<and> 0 < Max (set vs) \<longrightarrow>
      calculate_y_axis_range fl (map Num vs) =
        (let magnitude = \<lfloor>flog10 fl (Max (set vs))\<rfloor>;
             unit = pow10 fl (magnitude - 1)
         in if num_value unit = 0 then Inl (OtherException ''float division by zero'')
            else
              let lo = int_mul fl \<lfloor>fdiv fl (Min (set vs)) (num_value unit)\<rfloor> unit;
                  hi = int_mul fl \<lceil>fdiv fl (Max (set vs)) (num_value unit)\<rceil> unit
              in if num_value lo = num_value hi
                 then Inr (num_value (num_sub fl lo unit), num_value (num_add fl hi unit))
                 else Inr (num_value lo, num_value hi)))
   \<and> (3 \<le> flog10 fl 1050 \<and> flog10 fl 1050 < 4
        \<and> fdiv fl 950 100 = 9.5 \<and> fdiv fl 1050 100 = 10.5 \<longrightarrow>
      calculate_y_axis_range fl [Num 950, Num 1050] = Inr (900, 1100))"
proof (intro conjI impI)
  assume "vs \<noteq> [] \<and> Min (set vs) \<noteq> Max (set vs) \<and> 0 < Max (set vs)"
  then have "vs \<noteq> []" and "Min (set vs) \<noteq> Max (set vs)" and "0 < Max (set vs)"
    by blast+
  then show "calculate_y_axis_range fl (map Num vs) =
        (let magnitude = \<lfloor>flog10 fl (Max (set vs))\<rfloor>;
             unit = pow10 fl (magnitude - 1)
         in if num_value unit = 0 then Inl (OtherException ''float division by zero'')
            else
              let lo = int_mul fl \<lfloor>fdiv fl (Min (set vs)) (num_value unit)\<rfloor> unit;
                  hi = int_mul fl \<lceil>fdiv fl (Max (set vs)) (num_value unit)\<rceil> unit
              in if num_value lo = num_value hi
                 then Inr (num_value (num_sub fl lo unit), num_value (num_add fl hi unit))
                 else Inr (num_value lo, num_value hi))"
    by (rule range_of_distinct)
next
  assume a: "3 \<le> flog10 fl 1050 \<and> flog10 fl 1050 < 4
        \<and> fdiv fl 950 100 = 9.5 \<and> fdiv fl 1050 100 = 10.5"
  then have magnitude: "\<lfloor>flog10 fl 1050\<rfloor> = 3"
    by (simp add: floor_eq_iff)
  from a have q1: "fdiv fl 950 100 = 9.5" and q2: "fdiv fl 1050 100 = 10.5"
    by blast+
  have lo: "\<lfloor>fdiv fl 950 100\<rfloor> = 9"
    unfolding q1 by simp
  have hi: "\<lceil>fdiv fl 1050 100\<rceil> = 11"
    unfolding q2 by simp
  show "calculate_y_axis_range fl [Num 950, Num 1050] = Inr (900, 1100)"
    using range_of_distinct [of "[950, 1050]" fl] magnitude lo hi
    by (simp add: Let_def pow10_def)
qed

theorem y_axis_range_rounds_to_unit_witness:
  "[1234, 5678 :: real] \<noteq> [] \<and> Min (set [1234, 5678 :: real]) \<noteq> Max (set [1234, 5678])
   \<and> (0 :: real) < Max (set [1234, 5678])
   \<and> calculate_y_axis_range exact_ops [Num 1234, Num 5678] = Inr (1200, 5700)
   \<and> 3 \<le> flog10 exact_ops 1050 \<and> flog10 exact_ops 1050 < 4
   \<and> fdiv exact_ops 950 100 = 9.5 \<and> fdiv exact_ops 1050 100 = 10.5
   \<and> calculate_y_axis_range exact_ops [Num 950, Num 1050] = Inr (900, 1100)
   \<and> [1919 / 16, 1921 / 16 :: real] \<noteq> []
   \<and> Min (set [1919 / 16, 1921 / 16 :: real]) \<noteq> Max (set [1919 / 16, 1921 / 16])
   \<and> (0 :: real) < Max (set [1919 / 16, 1921 / 16])
   \<and> calculate_y_axis_range coarse_ops [Num (1919 / 16), Num (1921 / 16)] = Inr (110, 130)"
proof -
  have l1: "\<lfloor>log 10 5678\<rfloor> = (3::int)"
    by (simp add: floor_log_eq_powr_iff)
  have l2: "\<lfloor>log 10 (1921 / 16)\<rfloor> = (2::int)"
    by (simp add: floor_log_eq_powr_iff)
  have first: "calculate_y_axis_range exact_ops [Num 1234, Num 5678] = Inr (1200, 5700)"
    using y_axis_range_rounds_to_unit [of "[1234, 5678]" exact_ops] l1
    by (simp add: Let_def pow10_def exact_ops_fields)
  have bounds: "3 \<le> flog10 exact_ops 1050 \<and> flog10 exact_ops 1050 < 4
      \<and> fdiv exact_ops 950 100 = 9.5 \<and> fdiv exact_ops 1050 100 = 10.5"
    using log10_1050_bounds by (simp add: exact_ops_fields)
  then have second: "calculate_y_axis_range exact_ops [Num 950, Num 1050] = Inr (900, 1100)"
    using y_axis_range_rounds_to_unit [of "[]" exact_ops] by blast
  have third: "calculate_y_axis_range coarse_ops [Num (1919 / 16), Num (1921 / 16)]
      = Inr (110, 130)"
    using y_axis_range_rounds_to_unit [of "[1919 / 16, 1921 / 16]" coarse_ops] l2
    by (simp add: Let_def coarse_ops_fields pow10_def round_sixteenth_def)
  show ?thesis
    using first bounds second third by simp
qed

text \<open>
  C2. When every prediction is the same number \<open>v\<close>, the range is \<open>v\<close> padded by a tenth
  of its absolute value on each side, and \<open>(-1, 1)\<close> when \<open>v = 0\<close>. Three times 100 gives
  \<open>(90, 110)\<close>, three times 0 gives \<open>(-1, 1)\<close>.
\<close>

theorem y_axis_range_all_equal:
  "(xs \<noteq> [] \<and> (\<forall>x \<in> set xs. x = Num v) \<longrightarrow>
      calculate_y_axis_range fl xs =
        Inr (if v \<noteq> 0 then (v - 0.1 * \<bar>v\<bar>, v + 0.1 * \<bar>v\<bar>) else (- 1, 1)))
   \<and> calculate_y_axis_range fl [Num 100, Num 100, Num 100] = Inr (90, 110)
   \<and> calculate_y_axis_range fl [Num 0, Num 0, Num 0] = Inr (- 1, 1)"
proof (intro conjI impI)
  assume "xs \<noteq> [] \<and> (\<forall>x \<in> set xs. x = Num v)"
  then have ne: "xs \<noteq> []" and eq: "\<forall>x \<in> set xs. x = Num v"
    by blast+
  show "calculate_y_axis_range fl xs =
        Inr (if v \<noteq> 0 then (v - 0.1 * \<bar>v\<bar>, v + 0.1 * \<bar>v\<bar>) else (- 1, 1))"
    using py_min_const [OF ne eq] py_max_const [OF ne eq]
    by (simp add: calculate_y_axis_range_def abs_mult)
next
  show "calculate_y_axis_range fl [Num 100, Num 100, Num 100] = Inr (90, 110)"
    by (simp add: calculate_y_axis_range_def py_min_def py_max_def)
next
  show "calculate_y_axis_range fl [Num 0, Num 0, Num 0] = Inr (- 1, 1)"
    by (simp add: calculate_y_axis_range_def py_min_def py_max_def)
qed

theorem y_axis_range_all_equal_witness:
  "[Num (- 20), Num (- 20)] \<noteq> []
   \<and> calculate_y_axis_range exact_ops [Num (- 20), Num (- 20)] = Inr (- 22, - 18)"
  using y_axis_range_all_equal
      [where xs = "[Num (- 20), Num (- 20)]" and v = "- 20" and fl = exact_ops]
  by simp

section \<open>Properties of the great-circle distance\<close>

text \<open>
  The argument of the square root lies between 0 and 1 for all coordinates, so neither
  \<^verbatim>\<open>math.sqrt\<close> nor \<^verbatim>\<open>math.asin\<close> raises in exact arithmetic.
\<close>

lemma haversine_arg_range:
  fixes x y d :: real
  defines "a \<equiv> (sin ((y - x) / 2))\<^sup>2 + cos x * cos y * (sin (d / 2))\<^sup>2"
  shows "0 \<le> a \<and> a \<le> 1"
proof -
  define s where "s = (sin (d / 2))\<^sup>2"
  define c where "c = cos (x - y)"
  define e where "e = cos (x + y)"
  have s: "0 \<le> s" "s \<le> 1"
    by (simp_all add: s_def abs_square_le_1)
  have c: "- 1 \<le> c" "c \<le> 1" and e: "- 1 \<le> e" "e \<le> 1"
    by (simp_all add: c_def e_def)
  have "cos (2 * ((y - x) / 2)) = 1 - 2 * (sin ((y - x) / 2))\<^sup>2"
    by (rule cos_double_sin)
  moreover have "2 * ((y - x) / 2) = y - x"
    by argo
  moreover have "cos (y - x) = c"
    using cos_minus [of "x - y"] by (simp add: c_def)
  ultimately have "c = 1 - 2 * (sin ((y - x) / 2))\<^sup>2"
    by (simp only:)
  then have h: "(sin ((y - x) / 2))\<^sup>2 = (1 - c) / 2"
    by argo
  have p: "cos x * cos y = (c + e) / 2"
    by (simp add: cos_times_cos c_def e_def)
  have a: "a = (1 - c) / 2 + (c + e) / 2 * s"
    by (simp add: a_def h p s_def)
  have "0 \<le> (1 - c) * (1 - s)" "0 \<le> (1 + e) * s" "0 \<le> (1 + c) * (1 - s)" "0 \<le> (1 - e) * s"
    using s c e by simp_all
  then have q: "c + s \<le> 1 + c * s" "0 \<le> s + e * s" "s + c * s \<le> 1 + c" "e * s \<le> s"
    by (simp_all add: algebra_simps)
  have "a = (1 - c + c * s + e * s) / 2"
    unfolding a by (simp add: field_simps)
  with q show ?thesis
    by auto
qed

lemma haversine_value:
  "haversine lon1 lat1 lon2 lat2 =
     Inr (2 * arcsin (sqrt ((sin ((math_radians lat2 - math_radians lat1) / 2))\<^sup>2
            + cos (math_radians lat1) * cos (math_radians lat2)
              * (sin ((math_radians lon2 - math_radians lon1) / 2))\<^sup>2)) * 6371)"
proof -
  let ?a = "(sin ((math_radians lat2 - math_radians lat1) / 2))\<^sup>2
            + cos (math_radians lat1) * cos (math_radians lat2)
              * (sin ((math_radians lon2 - math_radians lon1) / 2))\<^sup>2"
  have r: "0 \<le> ?a \<and> ?a \<le> 1"
    by (rule haversine_arg_range)
  then have "0 \<le> sqrt ?a" "sqrt ?a \<le> 1"
    by simp_all
  then have "\<not> sqrt ?a < - 1" "\<not> 1 < sqrt ?a"
    by linarith+
  with r show ?thesis
    by (simp add: haversine_def math_sqrt_def math_asin_def Let_def)
qed

lemma sin_half_diff_sq: "(sin ((x - y) / 2))\<^sup>2 = (sin ((y - x) / 2))\<^sup>2" for x y :: real
proof -
  have "(x - y) / 2 = - ((y - x) / 2)" by argo
  then have "sin ((x - y) / 2) = - sin ((y - x) / 2)"
    by (simp only: sin_minus)
  then show ?thesis by simp
qed

text \<open>
  C7. The distance is a function of its four arguments alone. It is symmetric: exchanging
  the two points gives the same result (equal, so within every tolerance), and the
  distance from a point to itself is 0.
\<close>

theorem haversine_symmetric_and_zero:
  "haversine lon1 lat1 lon2 lat2 = haversine lon2 lat2 lon1 lat1
   \<and> haversine lon lat lon lat = Inr 0"
proof
  show "haversine lon1 lat1 lon2 lat2 = haversine lon2 lat2 lon1 lat1"
    unfolding haversine_value
    by (simp add: sin_half_diff_sq [of "math_radians lat1" "math_radians lat2"]
        sin_half_diff_sq [of "math_radians lon1" "math_radians lon2"] mult.commute)
  show "haversine lon lat lon lat = Inr 0"
    by (simp add: haversine_value)
qed

section \<open>Properties of the nearest-station lookup\<close>

lemma idxmin_from_first_argmin:
  assumes "best < length xs" "bv = xs ! best" "i = length xs"
    and "\<forall>j < length xs. xs ! best \<le> xs ! j"
    and "\<forall>j < best. xs ! best < xs ! j"
  shows "idxmin_from best bv i ds < length (xs @ ds)
    \<and> (\<forall>j < length (xs @ ds). (xs @ ds) ! idxmin_from best bv i ds \<le> (xs @ ds) ! j)
    \<and> (\<forall>j < idxmin_from best bv i ds. (xs @ ds) ! idxmin_from best bv i ds < (xs @ ds) ! j)"
  using assms
proof (induction ds arbitrary: xs best bv i)
  case Nil
  then show ?case by simp
next
  case (Cons d ds)
  show ?case
  proof (cases "d < bv")
    case True
    have "idxmin_from i d (Suc i) ds < length ((xs @ [d]) @ ds)
      \<and> (\<forall>j < length ((xs @ [d]) @ ds).
            ((xs @ [d]) @ ds) ! idxmin_from i d (Suc i) ds \<le> ((xs @ [d]) @ ds) ! j)
      \<and> (\<forall>j < idxmin_from i d (Suc i) ds.
            ((xs @ [d]) @ ds) ! idxmin_from i d (Suc i) ds < ((xs @ [d]) @ ds) ! j)"
    proof (rule Cons.IH)
      show "i < length (xs @ [d])" using Cons.prems by simp
      show "d = (xs @ [d]) ! i" using Cons.prems by simp
      show "Suc i = length (xs @ [d])" using Cons.prems by simp
      show "\<forall>j < length (xs @ [d]). (xs @ [d]) ! i \<le> (xs @ [d]) ! j"
        using Cons.prems True by (auto simp: nth_append less_Suc_eq intro: less_imp_le dest: spec)
      show "\<forall>j < i. (xs @ [d]) ! i < (xs @ [d]) ! j"
        using Cons.prems True by (auto simp: nth_append)
    qed
    with True show ?thesis by simp
  next
    case False
    have "idxmin_from best bv (Suc i) ds < length ((xs @ [d]) @ ds)
      \<and> (\<forall>j < length ((xs @ [d]) @ ds).
            ((xs @ [d]) @ ds) ! idxmin_from best bv (Suc i) ds \<le> ((xs @ [d]) @ ds) ! j)
      \<and> (\<forall>j < idxmin_from best bv (Suc i) ds.
            ((xs @ [d]) @ ds) ! idxmin_from best bv (Suc i) ds < ((xs @ [d]) @ ds) ! j)"
    proof (rule Cons.IH)
      show "best < length (xs @ [d])" using Cons.prems by simp
      show "bv = (xs @ [d]) ! best" using Cons.prems by (simp add: nth_append)
      show "Suc i = length (xs @ [d])" using Cons.prems by simp
      show "\<forall>j < length (xs @ [d]). (xs @ [d]) ! best \<le> (xs @ [d]) ! j"
        using Cons.prems False by (auto simp: nth_append less_Suc_eq)
      show "\<forall>j < best. (xs @ [d]) ! best < (xs @ [d]) ! j"
        using Cons.prems by (auto simp: nth_append)
    qed
    with False show ?thesis by simp
  qed
qed

lemma idxmin_first_argmin:
  assumes "ds \<noteq> []"
  shows "\<exists>i. idxmin ds = Inr i \<and> i < length ds
     \<and> (\<forall>j < length ds. ds ! i \<le> ds ! j) \<and> (\<forall>j < i. ds ! i < ds ! j)"
proof (cases ds)
  case Nil
  with assms show ?thesis by simp
next
  case (Cons d rest)
  have "idxmin_from 0 d 1 rest < length ([d] @ rest)
    \<and> (\<forall>j < length ([d] @ rest). ([d] @ rest) ! idxmin_from 0 d 1 rest \<le> ([d] @ rest) ! j)
    \<and> (\<forall>j < idxmin_from 0 d 1 rest. ([d] @ rest) ! idxmin_from 0 d 1 rest < ([d] @ rest) ! j)"
    by (rule idxmin_from_first_argmin) simp_all
  with Cons show ?thesis by (simp add: idxmin_def)
qed

lemma apply_rows_total:
  assumes "\<And>row. f row = Inr (g row)"
  shows "apply_rows f rows = Inr (map g rows)"
  by (induction rows) (simp_all add: assms)

lemma sin_9_ge_sqrt2_sin:
  fixes h :: real
  assumes h: "h = pi / 360"
  shows "2 * (sin h)\<^sup>2 \<le> (sin (9 * h))\<^sup>2"
proof -
  have hpos: "0 < h" unfolding h by simp
  have p2: "pi / 2 = 180 * h" and p4: "pi / 4 = 90 * h" and p1: "pi = 360 * h"
    using h by simp_all
  have s0: "0 \<le> sin h"
    by (rule sin_ge_zero) (use hpos p1 in simp_all)
  have s14: "sin h \<le> sin (4 * h)"
    by (rule sin_monotone_2pi_le) (use hpos p2 in simp_all)
  have s89: "sin (8 * h) \<le> sin (9 * h)"
    by (rule sin_monotone_2pi_le) (use hpos p2 in simp_all)
  have "cos (pi / 4) \<le> cos (4 * h)"
    by (rule cos_monotone_0_pi_le) (use hpos p4 p1 in simp_all)
  then have c4: "sqrt 2 / 2 \<le> cos (4 * h)"
    by (simp only: cos_45)
  have s4: "0 \<le> sin (4 * h)"
    using s0 s14 by simp
  have "sin (2 * (4 * h)) = 2 * sin (4 * h) * cos (4 * h)"
    by (rule sin_double)
  then have s8: "sin (8 * h) = 2 * sin (4 * h) * cos (4 * h)"
    by simp
  have "sin (4 * h) * (sqrt 2 / 2) \<le> sin (4 * h) * cos (4 * h)"
    by (rule mult_left_mono [OF c4 s4])
  then have b: "sqrt 2 * sin (4 * h) \<le> sin (8 * h)"
    unfolding s8 by (simp add: mult.commute mult.left_commute)
  have a: "sqrt 2 * sin h \<le> sqrt 2 * sin (4 * h)"
    by (rule mult_left_mono [OF s14]) simp
  have le: "sqrt 2 * sin h \<le> sin (9 * h)"
    by (rule order_trans [OF a order_trans [OF b s89]])
  have nn: "0 \<le> sqrt 2 * sin h"
    using s0 by simp
  have "(sqrt 2 * sin h)\<^sup>2 \<le> (sin (9 * h))\<^sup>2"
    by (rule power_mono [OF le nn])
  then show ?thesis
    by (simp add: power_mult_distrib)
qed

lemma near_le_far:
  "(sin ((math_radians 0 - math_radians 1) / 2))\<^sup>2
     + cos (math_radians 1) * cos (math_radians 0) * (sin ((math_radians 0 - math_radians 1) / 2))\<^sup>2
   \<le> (sin ((math_radians 10 - math_radians 1) / 2))\<^sup>2
     + cos (math_radians 1) * cos (math_radians 10) * (sin ((math_radians 10 - math_radians 1) / 2))\<^sup>2"
proof -
  define h :: real where "h = pi / 360"
  have hpos: "0 < h" by (simp add: h_def)
  have p2: "pi / 2 = 180 * h"
    by (simp add: h_def)
  have r0: "math_radians 0 = 0" and r1: "math_radians 1 = 2 * h" and r10: "math_radians 10 = 20 * h"
    by (simp_all add: math_radians_def h_def)
  have d1: "(math_radians 0 - math_radians 1) / 2 = - h"
    unfolding r0 r1 by simp
  have d2: "(math_radians 10 - math_radians 1) / 2 = 9 * h"
    unfolding r10 r1 by simp
  have c2: "0 \<le> cos (2 * h)" "cos (2 * h) \<le> 1"
    by (rule cos_ge_zero; use hpos p2 in simp) simp
  have c20: "0 \<le> cos (20 * h)"
    by (rule cos_ge_zero; use hpos p2 in simp)
  have key: "2 * (sin h)\<^sup>2 \<le> (sin (9 * h))\<^sup>2"
    by (rule sin_9_ge_sqrt2_sin) (simp add: h_def)
  have "cos (2 * h) * (sin h)\<^sup>2 \<le> 1 * (sin h)\<^sup>2"
    by (rule mult_right_mono) (use c2 in simp_all)
  then have lhs: "(sin h)\<^sup>2 + cos (2 * h) * (sin h)\<^sup>2 \<le> 2 * (sin h)\<^sup>2"
    by simp
  have "0 \<le> cos (2 * h) * cos (20 * h) * (sin (9 * h))\<^sup>2"
    using c2 c20 by simp
  then have rhs: "(sin (9 * h))\<^sup>2
      \<le> (sin (9 * h))\<^sup>2 + cos (2 * h) * cos (20 * h) * (sin (9 * h))\<^sup>2"
    by simp
  show ?thesis
    unfolding d1 d2 r0 r1 r10 using lhs rhs key by simp
qed

lemma haversine_total: "\<exists>d. haversine lon1 lat1 lon2 lat2 = Inr d"
  by (simp add: haversine_value)

lemma find_closest_metro_first_argmin:
  assumes "stations \<noteq> []"
  shows "\<exists>i ds. i < length stations \<and> length ds = length stations
      \<and> (\<forall>k < length stations.
            haversine user_lon user_lat (longitude (stations ! k)) (latitude (stations ! k))
              = Inr (ds ! k))
      \<and> find_closest_metro stations user_lat user_lon = Inr (Some (stations ! i))
      \<and> (\<forall>j < length stations. ds ! i \<le> ds ! j)
      \<and> (\<forall>j < i. ds ! i < ds ! j)"
proof -
  define f where
    "f = (\<lambda>row :: metro. haversine user_lon user_lat (longitude row) (latitude row))"
  define g where "g = (\<lambda>row :: metro.
      2 * arcsin (sqrt ((sin ((math_radians (latitude row) - math_radians user_lat) / 2))\<^sup>2
            + cos (math_radians user_lat) * cos (math_radians (latitude row))
              * (sin ((math_radians (longitude row) - math_radians user_lon) / 2))\<^sup>2)) * 6371)"
  have g: "\<And>row. f row = Inr (g row)"
    unfolding f_def g_def by (rule haversine_value)
  define ds where "ds = map g stations"
  have rows: "apply_rows f stations = Inr ds"
    unfolding ds_def by (rule apply_rows_total) (rule g)
  have "ds \<noteq> []"
    using assms by (simp add: ds_def)
  then obtain i where i: "idxmin ds = Inr i" "i < length ds"
    "\<forall>j < length ds. ds ! i \<le> ds ! j" "\<forall>j < i. ds ! i < ds ! j"
    using idxmin_first_argmin by blast
  have len: "length ds = length stations"
    by (simp add: ds_def)
  have "find_closest_metro stations user_lat user_lon = Inr (Some (stations ! i))"
    using assms rows i(1) i(2) len
    by (simp add: find_closest_metro_def f_def [symmetric] loc_def)
  moreover have "\<forall>k < length stations.
      haversine user_lon user_lat (longitude (stations ! k)) (latitude (stations ! k))
        = Inr (ds ! k)"
    using g by (simp add: ds_def f_def)
  ultimately show ?thesis
    using i len by auto
qed

lemma nearest_of_two:
  "find_closest_metro
     [\<lparr>name = ''P1'', latitude = 0, longitude = 0\<rparr>,
      \<lparr>name = ''P2'', latitude = 10, longitude = 10\<rparr>] 1 1
   = Inr (Some \<lparr>name = ''P1'', latitude = 0, longitude = 0\<rparr>)"
proof -
  define a1 where "a1 = (sin ((math_radians 0 - math_radians 1) / 2))\<^sup>2
     + cos (math_radians 1) * cos (math_radians 0) * (sin ((math_radians 0 - math_radians 1) / 2))\<^sup>2"
  define a2 where "a2 = (sin ((math_radians 10 - math_radians 1) / 2))\<^sup>2
     + cos (math_radians 1) * cos (math_radians 10) * (sin ((math_radians 10 - math_radians 1) / 2))\<^sup>2"
  define d1 where "d1 = 2 * arcsin (sqrt a1) * 6371"
  define d2 where "d2 = 2 * arcsin (sqrt a2) * 6371"
  have h1: "haversine 1 1 0 0 = Inr d1"
    unfolding d1_def a1_def by (rule haversine_value)
  have h2: "haversine 1 1 10 10 = Inr d2"
    unfolding d2_def a2_def by (rule haversine_value)
  have r1: "0 \<le> a1 \<and> a1 \<le> 1" and r2: "0 \<le> a2 \<and> a2 \<le> 1"
    unfolding a1_def a2_def by (rule haversine_arg_range)+
  have "a1 \<le> a2"
    unfolding a1_def a2_def by (rule near_le_far)
  then have "sqrt a1 \<le> sqrt a2"
    by simp
  moreover have "\<bar>sqrt a1\<bar> \<le> 1" "\<bar>sqrt a2\<bar> \<le> 1"
    using r1 r2 by simp_all
  ultimately have "arcsin (sqrt a1) \<le> arcsin (sqrt a2)"
    by (simp add: arcsin_le_mono)
  then have "\<not> d2 < d1"
    by (simp add: d1_def d2_def)
  then show ?thesis
    by (simp add: find_closest_metro_def h1 h2 idxmin_def loc_def)
qed

text \<open>
  C6. On a store that is not empty, the lookup returns a stored station whose distance to
  the query point is the least one, and the first station in the order of the table when
  several are at that distance. With P1 at (0, 0) and P2 at (10, 10), a query at (1, 1)
  returns P1.
\<close>

theorem nearest_station_is_first_minimum:
  "(stations \<noteq> [] \<longrightarrow>
      (\<exists>i ds. i < length stations \<and> length ds = length stations
         \<and> (\<forall>k < length stations.
               haversine user_lon user_lat (longitude (stations ! k)) (latitude (stations ! k))
                 = Inr (ds ! k))
         \<and> find_closest_metro stations user_lat user_lon = Inr (Some (stations ! i))
         \<and> (\<forall>j < length stations. ds ! i \<le> ds ! j)
         \<and> (\<forall>j < i. ds ! i < ds ! j)))
   \<and> find_closest_metro
        [\<lparr>name = ''P1'', latitude = 0, longitude = 0\<rparr>,
         \<lparr>name = ''P2'', latitude = 10, longitude = 10\<rparr>] 1 1
       = Inr (Some \<lparr>name = ''P1'', latitude = 0, longitude = 0\<rparr>)"
  using find_closest_metro_first_argmin nearest_of_two by blast

theorem nearest_station_is_first_minimum_witness:
  "[\<lparr>name = ''A'', latitude = 5, longitude = 5\<rparr>,
    \<lparr>name = ''B'', latitude = 5, longitude = 5\<rparr>] \<noteq> []
   \<and> find_closest_metro
        [\<lparr>name = ''A'', latitude = 5, longitude = 5\<rparr>,
         \<lparr>name = ''B'', latitude = 5, longitude = 5\<rparr>] 1 1
       = Inr (Some \<lparr>name = ''A'', latitude = 5, longitude = 5\<rparr>)"
proof -
  let ?df = "[\<lparr>name = ''A'', latitude = 5, longitude = 5\<rparr>,
              \<lparr>name = ''B'', latitude = 5, longitude = 5\<rparr>]"
  have "?df \<noteq> []" by simp
  then obtain i ds where i: "i < length ?df"
    and ds: "\<forall>k < length ?df.
        haversine 1 1 (longitude (?df ! k)) (latitude (?df ! k)) = Inr (ds ! k)"
    and res: "find_closest_metro ?df 1 1 = Inr (Some (?df ! i))"
    and first: "\<forall>j < i. ds ! i < ds ! j"
    using nearest_station_is_first_minimum [of ?df 1 1] by blast
  have "haversine 1 1 5 5 = Inr (ds ! 0)" "haversine 1 1 5 5 = Inr (ds ! 1)"
    using ds [rule_format, of 0] ds [rule_format, of 1] by simp_all
  then have same: "ds ! 0 = ds ! 1"
    by simp
  have "i = 0"
  proof (rule ccontr)
    assume "i \<noteq> 0"
    with i have "i = 1" by simp
    with first have "ds ! 1 < ds ! 0" by simp
    with same show False by simp
  qed
  with res show ?thesis by simp
qed

section \<open>Running the sample installation\<close>

lemma sample_env_fields:
  "files sample_env = sample_files"
  "meipass sample_env = None"
  "script_dir sample_env = ''/app/src''"
  "today_year sample_env = 2025"
  "arith sample_env = exact_ops"
  "metro_df sample_env = [sample_station]"
  "parse_float sample_env = [''25'' \<mapsto> 25, ''55'' \<mapsto> 55]"
  "parse_int sample_env = [''2'' \<mapsto> 2]"
  by (simp_all add: sample_env_def)

lemma resource_path_sample:
  "resource_path sample_env f =
     (if take 1 f = ''/'' then f else ''/app/src/../model/'' @ f)"
  by (simp add: resource_path_def sample_env_fields os_path_join_def)

lemma load_scaler:
  "joblib_load sample_env (resource_path sample_env ''scaler.joblib'') = Inr (Scaler sample_transform)"
  by (simp add: resource_path_sample joblib_load_def sample_env_fields sample_files_def)

lemma load_features:
  "joblib_load sample_env (resource_path sample_env ''scaled_features_list.joblib'')
     = Inr (FeatureList [''rooms_en'', ''distance_km''])"
  by (simp add: resource_path_sample joblib_load_def sample_env_fields sample_files_def)

lemma load_meta:
  "joblib_load sample_env (resource_path sample_env ''meta_model.joblib'')
     = Inr (Estimator None (Some [''random_forest'']) (sample_predict ''random_forest''))"
  by (simp add: resource_path_sample joblib_load_def sample_env_fields sample_files_def)


lemma sample_frame:
  "df_set_scalar (base_df sample_station 2 25 55) ''year'' (Num y) =
     \<lparr>nrows = 1,
      cols = [(''area_name_en'', [Str ''Union'']), (''rooms_en'', [Num 2]),
              (''latitude'', [Num 25]), (''longitude'', [Num 55]),
              (''latitude_metro'', [Num 26]), (''longitude_metro'', [Num 56]),
              (''year'', [Num y])]\<rparr>"
  by (simp add: df_set_scalar_def df_set_col_def columns_def base_df_def sample_station_def)

lemma sample_filled:
  "fill_missing [''rooms_en'', ''distance_km'']
     \<lparr>nrows = 1,
      cols = [(''area_name_en'', [Str ''Union'']), (''rooms_en'', [Num 2]),
              (''latitude'', [Num 25]), (''longitude'', [Num 55]),
              (''latitude_metro'', [Num 26]), (''longitude_metro'', [Num 56]),
              (''year'', [Num y])]\<rparr> =
     \<lparr>nrows = 1,
      cols = [(''area_name_en'', [Str ''Union'']), (''rooms_en'', [Num 2]),
              (''latitude'', [Num 25]), (''longitude'', [Num 55]),
              (''latitude_metro'', [Num 26]), (''longitude_metro'', [Num 56]),
              (''year'', [Num y]), (''distance_km'', [Num 0])]\<rparr>"
  by (simp add: df_set_scalar_def df_set_col_def columns_def)

lemma sample_scaled:
  "apply_scaling (Scaler sample_transform) (FeatureList [''rooms_en'', ''distance_km''])
     \<lparr>nrows = 1,
      cols = [(''area_name_en'', [Str ''Union'']), (''rooms_en'', [Num 2]),
              (''latitude'', [Num 25]), (''longitude'', [Num 55]),
              (''latitude_metro'', [Num 26]), (''longitude_metro'', [Num 56]),
              (''year'', [Num y])]\<rparr> =
     Inr \<lparr>nrows = 1,
      cols = [(''area_name_en'', [Str ''Union'']), (''rooms_en'', [Num 2]),
              (''latitude'', [Num 25]), (''longitude'', [Num 55]),
              (''latitude_metro'', [Num 26]), (''longitude_metro'', [Num 56]),
              (''year'', [Num y]), (''distance_km'', [Num 0])]\<rparr>"
  unfolding apply_scaling_def artifact.case sample_filled
  by (simp add: df_select_def sample_transform_def df_assign_def df_set_col_def columns_def
      upt_rec [of 0] upt_rec [of 1])


lemma load_base_models:
  "load_models sample_env [''random_forest'', ''xgboost'', ''linear_reg''] =
     Inr [(''random_forest'', Estimator (Some [''year'']) None (sample_predict ''year'')),
          (''xgboost'', Estimator (Some [''rooms_en'']) None (sample_predict ''rooms_en'')),
          (''linear_reg'',
             Estimator (Some [''distance_km'']) None (sample_predict ''distance_km''))]"
  by (simp add: resource_path_sample joblib_load_def sample_env_fields sample_files_def)

lemma sample_base_predict:
  "base_predict
     [(''random_forest'', Estimator (Some [''year'']) None (sample_predict ''year'')),
      (''xgboost'', Estimator (Some [''rooms_en'']) None (sample_predict ''rooms_en'')),
      (''linear_reg'', Estimator (Some [''distance_km'']) None (sample_predict ''distance_km''))]
     \<lparr>nrows = 1,
      cols = [(''area_name_en'', [Str ''Union'']), (''rooms_en'', [Num 2]),
              (''latitude'', [Num 25]), (''longitude'', [Num 55]),
              (''latitude_metro'', [Num 26]), (''longitude_metro'', [Num 56]),
              (''year'', [Num y]), (''distance_km'', [Num 0])]\<rparr> =
     Inr [(''random_forest'', y), (''xgboost'', 2), (''linear_reg'', 0)]"
  by (simp add: predict_one_def df_select_def sample_predict_def first_item_def)

lemma sample_meta_predict:
  "meta_predict (Estimator None (Some [''random_forest'']) (sample_predict ''random_forest''))
     [(''random_forest'', y), (''xgboost'', 2), (''linear_reg'', 0)] = Inr y"
  by (simp add: meta_predict_def df_select_def sample_predict_def first_item_def)

lemma sample_predict_try:
  "predict_try sample_env
     (df_set_scalar (base_df sample_station 2 25 55) ''year'' (Num y)) raw =
   (if raw then Inr (Num y) else Inr (Str (format_price sample_env y @ '' AED'')))"
  unfolding predict_try_def load_scaler load_features load_meta load_base_models sample_frame
    bindE_Inr sample_scaled sample_base_predict sample_meta_predict
  by (rule refl)

lemma sample_get_prediction:
  "get_prediction sample_env
     (df_set_scalar (base_df sample_station 2 25 55) ''year'' (Num y)) True = Num y"
  by (simp add: get_prediction_def sample_predict_try)

section \<open>Properties of the inference routine\<close>

lemma predict_try_raw_is_number:
  assumes "predict_try ev input_df True = Inr v"
  shows "\<exists>r. v = Num r"
  using assms unfolding predict_try_def bindE_def
  by (auto split: sum.splits)

lemma without_file_fields:
  "files (without_file ev p) = (files ev)(p := None)"
  "meipass (without_file ev p) = meipass ev"
  "script_dir (without_file ev p) = script_dir ev"
  "today_year (without_file ev p) = today_year ev"
  "metro_df (without_file ev p) = metro_df ev"
  "parse_float (without_file ev p) = parse_float ev"
  "parse_int (without_file ev p) = parse_int ev"
  "format_exc (without_file ev p) = format_exc ev"
  by (simp_all add: without_file_def)

lemma resource_path_without_file:
  "resource_path (without_file ev p) f = resource_path ev f"
  by (simp add: resource_path_def without_file_fields split: option.splits)

lemma joblib_load_missing:
  "joblib_load (without_file ev p) p = Inl (FileNotFoundError p)"
  by (simp add: joblib_load_def without_file_fields)

lemma predict_try_without_scaler:
  "predict_try (without_file ev (resource_path ev ''scaler.joblib'')) input_df raw_output
     = Inl (FileNotFoundError (resource_path ev ''scaler.joblib''))"
  by (simp add: predict_try_def resource_path_without_file joblib_load_missing)

text \<open>
  C10. \<^verbatim>\<open>get_prediction\<close> returns a value in every case. When a step of the
  \<^verbatim>\<open>try\<close> block raises, the value is a message string: the missing-file message for
  \<^verbatim>\<open>FileNotFoundError\<close>, the unexpected-error message otherwise. So with
  \<^verbatim>\<open>raw_output=True\<close> the caller gets a number exactly when no step raised, and a
  string otherwise.
\<close>

theorem get_prediction_returns_message_on_failure:
  "(predict_try ev input_df raw_output = Inl e \<longrightarrow>
      get_prediction ev input_df raw_output =
        Str (case e of FileNotFoundError f \<Rightarrow> missing_file_msg f
                     | _ \<Rightarrow> unexpected_msg ev e))
   \<and> (predict_try ev input_df raw_output = Inr v \<longrightarrow>
        get_prediction ev input_df raw_output = v)
   \<and> ((\<exists>r. get_prediction ev input_df True = Num r)
        \<longleftrightarrow> (\<exists>w. predict_try ev input_df True = Inr w))"
proof (intro conjI impI)
  assume "predict_try ev input_df raw_output = Inl e"
  then show "get_prediction ev input_df raw_output =
      Str (case e of FileNotFoundError f \<Rightarrow> missing_file_msg f | _ \<Rightarrow> unexpected_msg ev e)"
    by (cases e) (simp_all add: get_prediction_def)
next
  assume "predict_try ev input_df raw_output = Inr v"
  then show "get_prediction ev input_df raw_output = v"
    by (simp add: get_prediction_def)
next
  show "(\<exists>r. get_prediction ev input_df True = Num r)
      \<longleftrightarrow> (\<exists>w. predict_try ev input_df True = Inr w)"
  proof (cases "predict_try ev input_df True")
    case (Inl e)
    then show ?thesis
      by (cases e) (simp_all add: get_prediction_def)
  next
    case (Inr w)
    then show ?thesis
      using predict_try_raw_is_number [OF Inr] by (auto simp: get_prediction_def)
  qed
qed

theorem get_prediction_returns_message_on_failure_witness:
  "predict_try (without_file sample_env ''/app/src/../model/scaler.joblib'')
      \<lparr>nrows = 1, cols = [(''year'', [Num 2025])]\<rparr> True
     = Inl (FileNotFoundError ''/app/src/../model/scaler.joblib'')
   \<and> get_prediction (without_file sample_env ''/app/src/../model/scaler.joblib'')
      \<lparr>nrows = 1, cols = [(''year'', [Num 2025])]\<rparr> True
     = Str (missing_file_msg ''/app/src/../model/scaler.joblib'')"
proof -
  have p: "resource_path sample_env ''scaler.joblib'' = ''/app/src/../model/scaler.joblib''"
    by (simp add: resource_path_sample)
  have f: "predict_try (without_file sample_env ''/app/src/../model/scaler.joblib'')
      \<lparr>nrows = 1, cols = [(''year'', [Num 2025])]\<rparr> True
     = Inl (FileNotFoundError ''/app/src/../model/scaler.joblib'')"
    using predict_try_without_scaler [of sample_env] unfolding p by simp
  show ?thesis
    using f get_prediction_returns_message_on_failure
      [of "without_file sample_env ''/app/src/../model/scaler.joblib''"
          "\<lparr>nrows = 1, cols = [(''year'', [Num 2025])]\<rparr>" True
          "FileNotFoundError ''/app/src/../model/scaler.joblib''"]
    by simp
qed

lemma nrows_df_set_scalar [simp]: "nrows (df_set_scalar df c v) = nrows df"
  by (simp add: df_set_scalar_def df_set_col_def)

lemma nrows_fill_missing [simp]: "nrows (fill_missing names df) = nrows df"
  by (induction names arbitrary: df) simp_all

lemma in_columns_iff: "c \<in> set (columns df) \<longleftrightarrow> map_of (cols df) c \<noteq> None"
  by (simp add: columns_def map_of_eq_None_iff)

lemma map_of_set_new:
  assumes "c \<notin> set (columns df)"
  shows "map_of (cols (df_set_scalar df c v)) k =
     (if k = c then Some (replicate (nrows df) v) else map_of (cols df) k)"
proof -
  have "map_of (cols df) c = None"
    using assms by (simp add: in_columns_iff)
  then show ?thesis
    using assms by (auto simp: df_set_scalar_def df_set_col_def map_add_def split: option.splits)
qed

lemma columns_set_new:
  assumes "c \<notin> set (columns df)"
  shows "set (columns (df_set_scalar df c v)) = insert c (set (columns df))"
  using assms by (auto simp: df_set_scalar_def df_set_col_def columns_def)

lemma map_of_fill_missing:
  "map_of (cols (fill_missing names df)) k =
     (if k \<in> set names \<and> k \<notin> set (columns df)
      then Some (replicate (nrows df) (Num 0)) else map_of (cols df) k)"
proof (induction names arbitrary: df)
  case Nil
  show ?case by simp
next
  case (Cons col rest)
  show ?case
  proof (cases "col \<in> set (columns df)")
    case True
    then show ?thesis
      using Cons.IH [of df] by auto
  next
    case False
    then show ?thesis
      using Cons.IH [of "df_set_scalar df col (Num 0)"]
      by (auto simp: map_of_set_new columns_set_new in_columns_iff)
  qed
qed

lemma select_cols_present:
  assumes "\<forall>c \<in> set names. map_of cs c \<noteq> None"
  shows "\<exists>sel. select_cols cs names = Inr sel \<and> map fst sel = names
     \<and> (\<forall>c \<in> set names. map_of sel c = map_of cs c)"
  using assms
proof (induction names)
  case Nil
  show ?case by simp
next
  case (Cons c names)
  then obtain sel where sel: "select_cols cs names = Inr sel" "map fst sel = names"
    "\<forall>c \<in> set names. map_of sel c = map_of cs c"
    by auto
  from Cons.prems obtain vs where vs: "map_of cs c = Some vs"
    by auto
  show ?case
    using sel vs by auto
qed

lemma fill_missing_covers:
  "\<forall>c \<in> set names. map_of (cols (fill_missing names df)) c \<noteq> None"
  by (auto simp: map_of_fill_missing in_columns_iff)

lemma select_after_fill:
  "\<exists>data. df_select (fill_missing names df) names = Inr data
      \<and> columns data = names \<and> nrows data = nrows df
      \<and> (\<forall>c \<in> set names. map_of (cols data) c =
            (if c \<in> set (columns df) then map_of (cols df) c
             else Some (replicate (nrows df) (Num 0))))"
proof -
  obtain sel where sel: "select_cols (cols (fill_missing names df)) names = Inr sel"
    "map fst sel = names"
    "\<forall>c \<in> set names. map_of sel c = map_of (cols (fill_missing names df)) c"
    using select_cols_present [OF fill_missing_covers] by blast
  let ?data = "\<lparr>nrows = nrows df, cols = sel\<rparr>"
  have "df_select (fill_missing names df) names = Inr ?data"
    by (simp add: df_select_def sel(1))
  moreover have "columns ?data = names"
    by (simp add: columns_def sel(2))
  moreover have "\<forall>c \<in> set names. map_of (cols ?data) c =
            (if c \<in> set (columns df) then map_of (cols df) c
             else Some (replicate (nrows df) (Num 0)))"
    using sel(3) by (simp add: map_of_fill_missing)
  ultimately show ?thesis
    by (intro exI [of _ ?data]) simp
qed

text \<open>
  C9. Before scaling, every column of the scaler's list that the row lacks is added with
  the value 0 (and the columns the row has are left as they are), so selecting the
  scaler's columns succeeds and the scaler is called on them: the missing column does not
  stop the prediction.
\<close>

theorem missing_scaler_columns_filled_with_zero:
  "\<exists>data. df_select (fill_missing names df) names = Inr data
      \<and> columns data = names \<and> nrows data = nrows df
      \<and> (\<forall>c \<in> set names. map_of (cols data) c =
            (if c \<in> set (columns df) then map_of (cols df) c
             else Some (replicate (nrows df) (Num 0))))
      \<and> apply_scaling (Scaler transform) (FeatureList names) df =
          (if names \<noteq> []
           then bindE (transform data) (df_assign (fill_missing names df) names)
           else Inr df)"
proof -
  obtain data where data: "df_select (fill_missing names df) names = Inr data"
    "columns data = names" "nrows data = nrows df"
    "\<forall>c \<in> set names. map_of (cols data) c =
            (if c \<in> set (columns df) then map_of (cols df) c
             else Some (replicate (nrows df) (Num 0)))"
    using select_after_fill by blast
  have "apply_scaling (Scaler transform) (FeatureList names) df =
          (if names \<noteq> []
           then bindE (transform data) (df_assign (fill_missing names df) names)
           else Inr df)"
    by (simp add: apply_scaling_def data(1) Let_def)
  with data show ?thesis
    by blast
qed


theorem missing_scaler_columns_filled_with_zero_witness:
  "''distance_km'' \<notin> set (columns
       (df_set_scalar (base_df sample_station 2 25 55) ''year'' (Num 2025)))
   \<and> (\<exists>data. df_select
          (fill_missing [''rooms_en'', ''distance_km'']
             (df_set_scalar (base_df sample_station 2 25 55) ''year'' (Num 2025)))
          [''rooms_en'', ''distance_km''] = Inr data
        \<and> map_of (cols data) ''rooms_en'' = Some [Num 2]
        \<and> map_of (cols data) ''distance_km'' = Some [Num 0])
   \<and> get_prediction sample_env
        (df_set_scalar (base_df sample_station 2 25 55) ''year'' (Num 2025)) True = Num 2025"
proof -
  let ?df = "df_set_scalar (base_df sample_station 2 25 55) ''year'' (Num 2025)"
  let ?names = "[''rooms_en'', ''distance_km'']"
  have absent: "''distance_km'' \<notin> set (columns ?df)"
    and present: "''rooms_en'' \<in> set (columns ?df)"
    and rooms: "map_of (cols ?df) ''rooms_en'' = Some [Num 2]"
    and rows: "nrows ?df = 1"
    unfolding sample_frame by (simp_all add: columns_def)
  obtain data where sel: "df_select (fill_missing ?names ?df) ?names = Inr data"
    and filled: "\<forall>c \<in> set ?names. map_of (cols data) c =
        (if c \<in> set (columns ?df) then map_of (cols ?df) c
         else Some (replicate (nrows ?df) (Num 0)))"
    using missing_scaler_columns_filled_with_zero [of ?names ?df sample_transform] by blast
  have "map_of (cols data) ''rooms_en'' = Some [Num 2]"
    using filled present rooms by simp
  moreover have "map_of (cols data) ''distance_km'' = Some [Num 0]"
    using filled absent rows by simp
  ultimately show ?thesis
    using absent sel sample_get_prediction [of 2025] by blast
qed

section \<open>Properties of the request handler\<close>

lemma type_name_distinct [simp]: "type_name (Num r) \<noteq> type_name (Str s)"
  by simp

lemma py_lt_same_type: "py_lt x r = Inr b \<Longrightarrow> type_name x = type_name r"
  by (cases x; cases r) simp_all

lemma py_gt_same_type: "py_gt x r = Inr b \<Longrightarrow> type_name x = type_name r"
  by (cases x; cases r) simp_all

lemma min_loop_same_type:
  "min_loop r xs = Inr v \<Longrightarrow>
     type_name v = type_name r \<and> (\<forall>x \<in> set xs. type_name x = type_name r)"
proof (induction xs arbitrary: r)
  case Nil
  then show ?case by simp
next
  case (Cons x xs)
  from Cons.prems obtain b where b: "py_lt x r = Inr b"
    and rest: "min_loop (if b then x else r) xs = Inr v"
    by (cases "py_lt x r") simp_all
  have t: "type_name x = type_name r"
    using b by (rule py_lt_same_type)
  then have "type_name (if b then x else r) = type_name r"
    by simp
  with Cons.IH [OF rest] t show ?case
    by simp
qed

lemma max_loop_same_type:
  "max_loop r xs = Inr v \<Longrightarrow>
     type_name v = type_name r \<and> (\<forall>x \<in> set xs. type_name x = type_name r)"
proof (induction xs arbitrary: r)
  case Nil
  then show ?case by simp
next
  case (Cons x xs)
  from Cons.prems obtain b where b: "py_gt x r = Inr b"
    and rest: "max_loop (if b then x else r) xs = Inr v"
    by (cases "py_gt x r") simp_all
  have t: "type_name x = type_name r"
    using b by (rule py_gt_same_type)
  then have "type_name (if b then x else r) = type_name r"
    by simp
  with Cons.IH [OF rest] t show ?case
    by simp
qed

lemma py_min_same_type:
  assumes "py_min xs = Inr v" "x \<in> set xs"
  shows "type_name x = type_name v"
proof (cases xs)
  case Nil
  with assms show ?thesis by simp
next
  case (Cons a rest)
  with assms(1) have "min_loop a rest = Inr v"
    by (simp add: py_min_def)
  from min_loop_same_type [OF this] assms(2) Cons show ?thesis
    by auto
qed

lemma py_max_same_type:
  assumes "py_max xs = Inr v" "x \<in> set xs"
  shows "type_name x = type_name v"
proof (cases xs)
  case Nil
  with assms show ?thesis by simp
next
  case (Cons a rest)
  with assms(1) have "max_loop a rest = Inr v"
    by (simp add: py_max_def)
  from max_loop_same_type [OF this] assms(2) Cons show ?thesis
    by auto
qed

lemma type_name_str: "type_name v = type_name (Str s) \<Longrightarrow> \<exists>t. v = Str t"
  by (cases v) simp_all

lemma range_fails_on_string:
  assumes "Str s \<in> set xs"
  shows "\<exists>e. calculate_y_axis_range fl xs = Inl e"
proof (cases "py_min xs")
  case (Inl e)
  then show ?thesis by (simp add: calculate_y_axis_range_def)
next
  case mn: (Inr min_val)
  from py_min_same_type [OF mn assms] obtain t where t: "min_val = Str t"
    using type_name_str [of min_val s] by auto
  show ?thesis
  proof (cases "py_max xs")
    case (Inl e)
    with mn show ?thesis by (simp add: calculate_y_axis_range_def)
  next
    case mx: (Inr max_val)
    from py_max_same_type [OF mx assms] obtain u where u: "max_val = Str u"
      using type_name_str [of max_val s] by auto
    show ?thesis
      by (simp add: calculate_y_axis_range_def mn mx t u)
  qed
qed

lemma range_ok_all_numbers:
  assumes "calculate_y_axis_range fl xs = Inr r" "x \<in> set xs"
  shows "\<exists>v. x = Num v"
proof (cases x)
  case (Num v)
  then show ?thesis by simp
next
  case (Str s)
  with assms(2) range_fails_on_string [of s xs fl] assms(1) show ?thesis
    by auto
qed

lemma years_four: "years_to_predict y = [y, y + 1, y + 2, y + 3]"
proof -
  have "[y .. y + 3] = y # [y + 1 .. y + 3]"
    by (simp add: upto_rec1)
  also have "[y + 1 .. y + 3] = (y + 1) # [y + 2 .. y + 3]"
    by (simp add: upto_rec1)
  also have "[y + 2 .. y + 3] = (y + 2) # [y + 3 .. y + 3]"
    by (simp add: upto_rec1)
  also have "[y + 3 .. y + 3] = [y + 3]"
    by simp
  finally show ?thesis
    by (simp add: years_to_predict_def)
qed

lemma raw_failure_is_string:
  assumes "predict_try ev input_df True = Inl e"
  shows "\<exists>s. get_prediction ev input_df True = Str s"
  using assms by (cases e) (simp_all add: get_prediction_def)

lemma project_fails_on_failed_year:
  assumes "form_int ev fd ''rooms'' 1 = Inr rooms"
    and "year \<in> set (years_to_predict (today_year ev))"
    and "predict_try ev
           (df_set_scalar (base_df m rooms lat lon) ''year'' (Num (of_int year))) True = Inl e"
  shows "\<exists>e'. project ev fd lat lon m = Inl e'"
proof -
  let ?preds = "map (\<lambda>year. get_prediction ev
        (df_set_scalar (base_df m rooms lat lon) ''year'' (Num (of_int year))) True)
      (years_to_predict (today_year ev))"
  obtain s where "get_prediction ev
      (df_set_scalar (base_df m rooms lat lon) ''year'' (Num (of_int year))) True = Str s"
    using raw_failure_is_string [OF assms(3)] by blast
  then have "Str s \<in> set ?preds"
    using assms(2) by (metis (no_types, lifting) image_eqI set_map)
  then obtain e' where "calculate_y_axis_range (arith ev) ?preds = Inl e'"
    using range_fails_on_string by blast
  then show ?thesis
    by (simp add: project_def assms(1) Let_def)
qed

lemma index_locate_failed:
  assumes "request_method req = ''POST''" "locate ev (form req) = Inl e"
  shows "index ev req =
     \<lparr>projection_data = Some (error_data e), form_data = form req, closest_metro_name = None\<rparr>"
  using assms by (simp add: index_def)

lemma index_located:
  assumes "request_method req = ''POST''" "locate ev (form req) = Inr (lat, lon, m)"
  shows "projection_data (index ev req) =
     Some (case project ev (form req) lat lon m of Inl e \<Rightarrow> error_data e | Inr p \<Rightarrow> p)"
    and "closest_metro_name (index ev req) = Some (name m)"
  using assms by (simp_all add: index_def)

lemma locate_no_station:
  assumes "form_float ev fd ''latitude'' 25.2048 = Inr lat"
    and "form_float ev fd ''longitude'' 55.2708 = Inr lon"
    and "\<forall>m. find_closest_metro (metro_df ev) lat lon \<noteq> Inr (Some m)"
  shows "\<exists>e. locate ev fd = Inl e"
proof (cases "find_closest_metro (metro_df ev) lat lon")
  case (Inl e)
  show ?thesis
    unfolding locate_def assms(1) assms(2) bindE_Inr Inl by simp
next
  case (Inr r)
  with assms(3) have r: "r = None"
    by (cases r) auto
  show ?thesis
    unfolding locate_def assms(1) assms(2) bindE_Inr Inr r by simp
qed

lemma find_closest_metro_empty_iff:
  "find_closest_metro stations lat lon = Inr None \<longleftrightarrow> stations = []"
proof
  assume none: "find_closest_metro stations lat lon = Inr None"
  show "stations = []"
  proof (rule ccontr)
    assume "stations \<noteq> []"
    from find_closest_metro_first_argmin [OF this, of lon lat] none show False
      by auto
  qed
next
  assume "stations = []"
  then show "find_closest_metro stations lat lon = Inr None"
    by (simp add: find_closest_metro_def)
qed

lemma find_closest_metro_single: "find_closest_metro [m] lat lon = Inr (Some m)"
  using find_closest_metro_first_argmin [of "[m]" lon lat] by auto

lemma str_lt_irrefl: "\<not> str_lt s s"
  by (induction s) simp_all

lemma range_of_equal_strings:
  "calculate_y_axis_range fl [Str s, Str s, Str s, Str s] =
     Inl (TypeError (''can'' @ apos @ ''t multiply sequence by non-int of type ''
                     @ apos @ ''float'' @ apos))"
  by (simp add: calculate_y_axis_range_def py_min_def py_max_def str_lt_irrefl)

lemma project_same_message:
  assumes "form_int ev fd ''rooms'' 1 = Inr rooms"
    and "\<And>year. get_prediction ev
           (df_set_scalar (base_df m rooms lat lon) ''year'' (Num (of_int year))) True = Str s"
  shows "project ev fd lat lon m =
     Inl (TypeError (''can'' @ apos @ ''t multiply sequence by non-int of type ''
                     @ apos @ ''float'' @ apos))"
proof -
  have "map (\<lambda>year. get_prediction ev
          (df_set_scalar (base_df m rooms lat lon) ''year'' (Num (of_int year))) True)
        (years_to_predict (today_year ev)) = [Str s, Str s, Str s, Str s]"
    by (simp only: years_four list.map assms(2))
  then show ?thesis
    unfolding project_def assms(1) bindE_Inr Let_def
    by (simp only: range_of_equal_strings bindE_Inl)
qed

lemma joblib_load_without:
  "joblib_load (without_file ev p) q =
     (if q = p then Inl (FileNotFoundError p) else joblib_load ev q)"
  by (simp add: joblib_load_def without_file_fields)

lemma sample_load_paths:
  "joblib_load sample_env ''/app/src/../model/scaler.joblib'' = Inr (Scaler sample_transform)"
  "joblib_load sample_env ''/app/src/../model/scaled_features_list.joblib''
     = Inr (FeatureList [''rooms_en'', ''distance_km''])"
  "joblib_load sample_env ''/app/src/../model/random_forest.joblib''
     = Inr (Estimator (Some [''year'']) None (sample_predict ''year''))"
  "joblib_load sample_env ''/app/src/../model/xgboost.joblib''
     = Inr (Estimator (Some [''rooms_en'']) None (sample_predict ''rooms_en''))"
  "joblib_load sample_env ''/app/src/../model/linear_reg.joblib''
     = Inr (Estimator (Some [''distance_km'']) None (sample_predict ''distance_km''))"
  "joblib_load sample_env ''/app/src/../model/meta_model.joblib''
     = Inr (Estimator None (Some [''random_forest'']) (sample_predict ''random_forest''))"
  by (simp_all add: joblib_load_def sample_env_fields sample_files_def)

lemma sample_try_without_scaler:
  "predict_try (without_file sample_env (resource_path sample_env ''scaler.joblib''))
      (df_set_scalar (base_df sample_station 2 25 55) ''year'' (Num y)) raw
     = Inl (FileNotFoundError (resource_path sample_env ''scaler.joblib''))"
  by (simp add: predict_try_def resource_path_without_file resource_path_sample
      joblib_load_without)

lemma sample_try_without_scaled_features_list:
  "predict_try (without_file sample_env (resource_path sample_env ''scaled_features_list.joblib''))
      (df_set_scalar (base_df sample_station 2 25 55) ''year'' (Num y)) raw
     = Inl (FileNotFoundError (resource_path sample_env ''scaled_features_list.joblib''))"
  by (simp add: predict_try_def resource_path_without_file resource_path_sample
      joblib_load_without sample_load_paths)

lemma sample_try_without_random_forest:
  "predict_try (without_file sample_env (resource_path sample_env ''random_forest.joblib''))
      (df_set_scalar (base_df sample_station 2 25 55) ''year'' (Num y)) raw
     = Inl (FileNotFoundError (resource_path sample_env ''random_forest.joblib''))"
  by (simp add: predict_try_def resource_path_without_file resource_path_sample
      joblib_load_without sample_load_paths sample_frame sample_scaled [simplified])

lemma sample_try_without_xgboost:
  "predict_try (without_file sample_env (resource_path sample_env ''xgboost.joblib''))
      (df_set_scalar (base_df sample_station 2 25 55) ''year'' (Num y)) raw
     = Inl (FileNotFoundError (resource_path sample_env ''xgboost.joblib''))"
  by (simp add: predict_try_def resource_path_without_file resource_path_sample
      joblib_load_without sample_load_paths sample_frame sample_scaled [simplified])

lemma sample_try_without_linear_reg:
  "predict_try (without_file sample_env (resource_path sample_env ''linear_reg.joblib''))
      (df_set_scalar (base_df sample_station 2 25 55) ''year'' (Num y)) raw
     = Inl (FileNotFoundError (resource_path sample_env ''linear_reg.joblib''))"
  by (simp add: predict_try_def resource_path_without_file resource_path_sample
      joblib_load_without sample_load_paths sample_frame sample_scaled [simplified])

lemma sample_try_without_meta_model:
  "predict_try (without_file sample_env (resource_path sample_env ''meta_model.joblib''))
      (df_set_scalar (base_df sample_station 2 25 55) ''year'' (Num y)) raw
     = Inl (FileNotFoundError (resource_path sample_env ''meta_model.joblib''))"
  by (simp add: predict_try_def resource_path_without_file resource_path_sample
      joblib_load_without sample_load_paths sample_frame sample_scaled [simplified])

lemma form_fields_without_file:
  "form_float (without_file ev p) fd k d = form_float ev fd k d"
  "form_int (without_file ev p) fd k i = form_int ev fd k i"
  by (simp_all add: form_float_def form_int_def without_file_fields cong: option.case_cong)

lemma locate_without_file: "locate (without_file ev p) fd = locate ev fd"
  by (simp add: locate_def form_fields_without_file without_file_fields)

lemma sample_form:
  "form_float sample_env (form sample_request) ''latitude'' d = Inr 25"
  "form_float sample_env (form sample_request) ''longitude'' d = Inr 55"
  "form_int sample_env (form sample_request) ''rooms'' i = Inr 2"
  by (simp_all add: form_float_def form_int_def sample_request_def sample_env_fields)

lemma sample_locate: "locate sample_env (form sample_request) = Inr (25, 55, sample_station)"
  unfolding locate_def sample_form bindE_Inr sample_env_fields find_closest_metro_single
  by simp

lemma sample_post: "request_method sample_request = ''POST''"
  by (simp add: sample_request_def)

lemma get_prediction_missing:
  assumes "predict_try ev input_df raw = Inl (FileNotFoundError p)"
  shows "get_prediction ev input_df raw = Str (missing_file_msg p)"
  using assms by (simp add: get_prediction_def)

lemma multiply_error_page:
  assumes "request_method req = ''POST''" "locate ev (form req) = Inr (lat, lon, m)"
    and "form_int ev (form req) ''rooms'' 1 = Inr rooms"
    and "\<And>year. get_prediction ev
           (df_set_scalar (base_df m rooms lat lon) ''year'' (Num (of_int year))) True = Str s"
  shows "projection_data (index ev req) =
     Some (Error (''Error: can'' @ apos @ ''t multiply sequence by non-int of type ''
                  @ apos @ ''float'' @ apos))"
  unfolding index_located(1) [OF assms(1) assms(2)]
    project_same_message [of ev "form req" rooms m lat lon s, OF assms(3) assms(4)]
  by (simp add: error_data_def)

lemma page_without_scaler:
  "projection_data
     (index (without_file sample_env (resource_path sample_env ''scaler.joblib'')) sample_request)
   = Some (Error (''Error: can'' @ apos @ ''t multiply sequence by non-int of type ''
                  @ apos @ ''float'' @ apos))"
proof (rule multiply_error_page)
  show "request_method sample_request = ''POST''"
    by (rule sample_post)
  show "locate (without_file sample_env (resource_path sample_env ''scaler.joblib''))
      (form sample_request) = Inr (25, 55, sample_station)"
    unfolding locate_without_file by (rule sample_locate)
  show "form_int (without_file sample_env (resource_path sample_env ''scaler.joblib''))
      (form sample_request) ''rooms'' 1 = Inr 2"
    unfolding form_fields_without_file by (rule sample_form)
  show "get_prediction (without_file sample_env (resource_path sample_env ''scaler.joblib''))
      (df_set_scalar (base_df sample_station 2 25 55) ''year'' (Num (of_int year))) True
     = Str (missing_file_msg (resource_path sample_env ''scaler.joblib''))" for year
    by (rule get_prediction_missing [OF sample_try_without_scaler])
qed

lemma page_without_scaled_features_list:
  "projection_data
     (index (without_file sample_env (resource_path sample_env ''scaled_features_list.joblib'')) sample_request)
   = Some (Error (''Error: can'' @ apos @ ''t multiply sequence by non-int of type ''
                  @ apos @ ''float'' @ apos))"
proof (rule multiply_error_page)
  show "request_method sample_request = ''POST''"
    by (rule sample_post)
  show "locate (without_file sample_env (resource_path sample_env ''scaled_features_list.joblib''))
      (form sample_request) = Inr (25, 55, sample_station)"
    unfolding locate_without_file by (rule sample_locate)
  show "form_int (without_file sample_env (resource_path sample_env ''scaled_features_list.joblib''))
      (form sample_request) ''rooms'' 1 = Inr 2"
    unfolding form_fields_without_file by (rule sample_form)
  show "get_prediction (without_file sample_env (resource_path sample_env ''scaled_features_list.joblib''))
      (df_set_scalar (base_df sample_station 2 25 55) ''year'' (Num (of_int year))) True
     = Str (missing_file_msg (resource_path sample_env ''scaled_features_list.joblib''))" for year
    by (rule get_prediction_missing [OF sample_try_without_scaled_features_list])
qed

lemma page_without_random_forest:
  "projection_data
     (index (without_file sample_env (resource_path sample_env ''random_forest.joblib'')) sample_request)
   = Some (Error (''Error: can'' @ apos @ ''t multiply sequence by non-int of type ''
                  @ apos @ ''float'' @ apos))"
proof (rule multiply_error_page)
  show "request_method sample_request = ''POST''"
    by (rule sample_post)
  show "locate (without_file sample_env (resource_path sample_env ''random_forest.joblib''))
      (form sample_request) = Inr (25, 55, sample_station)"
    unfolding locate_without_file by (rule sample_locate)
  show "form_int (without_file sample_env (resource_path sample_env ''random_forest.joblib''))
      (form sample_request) ''rooms'' 1 = Inr 2"
    unfolding form_fields_without_file by (rule sample_form)
  show "get_prediction (without_file sample_env (resource_path sample_env ''random_forest.joblib''))
      (df_set_scalar (base_df sample_station 2 25 55) ''year'' (Num (of_int year))) True
     = Str (missing_file_msg (resource_path sample_env ''random_forest.joblib''))" for year
    by (rule get_prediction_missing [OF sample_try_without_random_forest])
qed

lemma page_without_xgboost:
  "projection_data
     (index (without_file sample_env (resource_path sample_env ''xgboost.joblib'')) sample_request)
   = Some (Error (''Error: can'' @ apos @ ''t multiply sequence by non-int of type ''
                  @ apos @ ''float'' @ apos))"
proof (rule multiply_error_page)
  show "request_method sample_request = ''POST''"
    by (rule sample_post)
  show "locate (without_file sample_env (resource_path sample_env ''xgboost.joblib''))
      (form sample_request) = Inr (25, 55, sample_station)"
    unfolding locate_without_file by (rule sample_locate)
  show "form_int (without_file sample_env (resource_path sample_env ''xgboost.joblib''))
      (form sample_request) ''rooms'' 1 = Inr 2"
    unfolding form_fields_without_file by (rule sample_form)
  show "get_prediction (without_file sample_env (resource_path sample_env ''xgboost.joblib''))
      (df_set_scalar (base_df sample_station 2 25 55) ''year'' (Num (of_int year))) True
     = Str (missing_file_msg (resource_path sample_env ''xgboost.joblib''))" for year
    by (rule get_prediction_missing [OF sample_try_without_xgboost])
qed

lemma page_without_linear_reg:
  "projection_data
     (index (without_file sample_env (resource_path sample_env ''linear_reg.joblib'')) sample_request)
   = Some (Error (''Error: can'' @ apos @ ''t multiply sequence by non-int of type ''
                  @ apos @ ''float'' @ apos))"
proof (rule multiply_error_page)
  show "request_method sample_request = ''POST''"
    by (rule sample_post)
  show "locate (without_file sample_env (resource_path sample_env ''linear_reg.joblib''))
      (form sample_request) = Inr (25, 55, sample_station)"
    unfolding locate_without_file by (rule sample_locate)
  show "form_int (without_file sample_env (resource_path sample_env ''linear_reg.joblib''))
      (form sample_request) ''rooms'' 1 = Inr 2"
    unfolding form_fields_without_file by (rule sample_form)
  show "get_prediction (without_file sample_env (resource_path sample_env ''linear_reg.joblib''))
      (df_set_scalar (base_df sample_station 2 25 55) ''year'' (Num (of_int year))) True
     = Str (missing_file_msg (resource_path sample_env ''linear_reg.joblib''))" for year
    by (rule get_prediction_missing [OF sample_try_without_linear_reg])
qed

lemma page_without_meta_model:
  "projection_data
     (index (without_file sample_env (resource_path sample_env ''meta_model.joblib'')) sample_request)
   = Some (Error (''Error: can'' @ apos @ ''t multiply sequence by non-int of type ''
                  @ apos @ ''float'' @ apos))"
proof (rule multiply_error_page)
  show "request_method sample_request = ''POST''"
    by (rule sample_post)
  show "locate (without_file sample_env (resource_path sample_env ''meta_model.joblib''))
      (form sample_request) = Inr (25, 55, sample_station)"
    unfolding locate_without_file by (rule sample_locate)
  show "form_int (without_file sample_env (resource_path sample_env ''meta_model.joblib''))
      (form sample_request) ''rooms'' 1 = Inr 2"
    unfolding form_fields_without_file by (rule sample_form)
  show "get_prediction (without_file sample_env (resource_path sample_env ''meta_model.joblib''))
      (df_set_scalar (base_df sample_station 2 25 55) ''year'' (Num (of_int year))) True
     = Str (missing_file_msg (resource_path sample_env ''meta_model.joblib''))" for year
    by (rule get_prediction_missing [OF sample_try_without_meta_model])
qed

text \<open>
  C4. With one file of the model directory missing, \<^verbatim>\<open>get_prediction\<close> builds the
  message that names the file and returns it as its value; \<^verbatim>\<open>index\<close>, which asked for
  a raw number, puts the four returned strings into \<^verbatim>\<open>calculate_y_axis_range\<close>, and
  what the page shows is the \<^verbatim>\<open>TypeError\<close> raised there. This holds for each of the
  six files.
\<close>

theorem missing_model_file_surfaces_type_error:
  "list_all (\<lambda>f.
       get_prediction (without_file sample_env (resource_path sample_env f))
         (df_set_scalar (base_df sample_station 2 25 55) ''year'' (Num 2025)) True
         = Str (missing_file_msg (resource_path sample_env f))
     \<and> projection_data
           (index (without_file sample_env (resource_path sample_env f)) sample_request)
         = Some (Error (''Error: can'' @ apos @ ''t multiply sequence by non-int of type ''
                        @ apos @ ''float'' @ apos)))
     model_files"
  unfolding model_files_def list.pred_inject
  by (intro conjI TrueI
      get_prediction_missing [OF sample_try_without_scaler]
      get_prediction_missing [OF sample_try_without_scaled_features_list]
      get_prediction_missing [OF sample_try_without_random_forest]
      get_prediction_missing [OF sample_try_without_xgboost]
      get_prediction_missing [OF sample_try_without_linear_reg]
      get_prediction_missing [OF sample_try_without_meta_model]
      page_without_scaler page_without_scaled_features_list page_without_random_forest
      page_without_xgboost page_without_linear_reg page_without_meta_model)
    simp

text \<open>
  C5. A failed step leaves nothing of a projection in the response. When the lookup gives
  no station, and when the inference fails for any of the four years, \<^verbatim>\<open>projection_data\<close>
  is the error entry alone; and a POST always gets a page with \<^verbatim>\<open>projection_data\<close>
  set, since every exception of the \<^verbatim>\<open>try\<close> block is caught.
\<close>

theorem projection_is_all_or_nothing:
  "(request_method req = ''POST''
      \<and> form_float ev (form req) ''latitude'' 25.2048 = Inr lat
      \<and> form_float ev (form req) ''longitude'' 55.2708 = Inr lon
      \<and> (\<forall>m. find_closest_metro (metro_df ev) lat lon \<noteq> Inr (Some m))
      \<longrightarrow> (\<exists>msg. projection_data (index ev req) = Some (Error msg)))
   \<and> (request_method req = ''POST''
      \<and> locate ev (form req) = Inr (lat, lon, m)
      \<and> form_int ev (form req) ''rooms'' 1 = Inr rooms
      \<and> year \<in> set (years_to_predict (today_year ev))
      \<and> predict_try ev
            (df_set_scalar (base_df m rooms lat lon) ''year'' (Num (of_int year))) True = Inl e
      \<longrightarrow> (\<exists>msg. projection_data (index ev req) = Some (Error msg)))
   \<and> (request_method req = ''POST'' \<longrightarrow> projection_data (index ev req) \<noteq> None)"
proof (intro conjI impI)
  assume a: "request_method req = ''POST''
      \<and> form_float ev (form req) ''latitude'' 25.2048 = Inr lat
      \<and> form_float ev (form req) ''longitude'' 55.2708 = Inr lon
      \<and> (\<forall>m. find_closest_metro (metro_df ev) lat lon \<noteq> Inr (Some m))"
  then obtain e' where "locate ev (form req) = Inl e'"
    using locate_no_station [of ev "form req" lat lon] by blast
  with a have "projection_data (index ev req) = Some (error_data e')"
    using index_locate_failed [of req ev e'] by simp
  then show "\<exists>msg. projection_data (index ev req) = Some (Error msg)"
    by (simp add: error_data_def)
next
  assume a: "request_method req = ''POST''
      \<and> locate ev (form req) = Inr (lat, lon, m)
      \<and> form_int ev (form req) ''rooms'' 1 = Inr rooms
      \<and> year \<in> set (years_to_predict (today_year ev))
      \<and> predict_try ev
            (df_set_scalar (base_df m rooms lat lon) ''year'' (Num (of_int year))) True = Inl e"
  then obtain e' where "project ev (form req) lat lon m = Inl e'"
    using project_fails_on_failed_year [of ev "form req" rooms year m lat lon e] by blast
  with a have "projection_data (index ev req) = Some (error_data e')"
    using index_located(1) [of req ev lat lon m] by simp
  then show "\<exists>msg. projection_data (index ev req) = Some (Error msg)"
    by (simp add: error_data_def)
next
  assume "request_method req = ''POST''"
  then show "projection_data (index ev req) \<noteq> None"
    by (simp add: index_def split: sum.splits prod.splits)
qed

lemma with_stations_fields:
  "metro_df (with_stations ev stations) = stations"
  "parse_float (with_stations ev stations) = parse_float ev"
  "parse_int (with_stations ev stations) = parse_int ev"
  by (simp_all add: with_stations_def)

lemma form_float_with_stations:
  "form_float (with_stations ev stations) fd k d = form_float ev fd k d"
  by (simp add: form_float_def with_stations_fields cong: option.case_cong)

theorem projection_is_all_or_nothing_witness:
  "request_method sample_request = ''POST''
   \<and> locate (without_file sample_env (resource_path sample_env ''xgboost.joblib''))
        (form sample_request) = Inr (25, 55, sample_station)
   \<and> form_int (without_file sample_env (resource_path sample_env ''xgboost.joblib''))
        (form sample_request) ''rooms'' 1 = Inr 2
   \<and> 2027 \<in> set (years_to_predict 2025)
   \<and> predict_try (without_file sample_env (resource_path sample_env ''xgboost.joblib''))
        (df_set_scalar (base_df sample_station 2 25 55) ''year'' (Num 2027)) True
        = Inl (FileNotFoundError (resource_path sample_env ''xgboost.joblib''))
   \<and> (\<exists>msg. projection_data
          (index (without_file sample_env (resource_path sample_env ''xgboost.joblib''))
             sample_request) = Some (Error msg))
   \<and> find_closest_metro (metro_df (with_stations sample_env [])) 25 55 = Inr None
   \<and> (\<exists>msg. projection_data (index (with_stations sample_env []) sample_request)
          = Some (Error msg))"
proof -
  let ?ev = "without_file sample_env (resource_path sample_env ''xgboost.joblib'')"
  let ?bare = "with_stations sample_env []"
  have loc: "locate ?ev (form sample_request) = Inr (25, 55, sample_station)"
    unfolding locate_without_file by (rule sample_locate)
  have rooms: "form_int ?ev (form sample_request) ''rooms'' 1 = Inr 2"
    unfolding form_fields_without_file by (rule sample_form)
  have yr: "(2027 :: int) \<in> set (years_to_predict (today_year ?ev))"
    by (simp add: years_four without_file_fields sample_env_fields)
  have yr': "(2027 :: int) \<in> set (years_to_predict 2025)"
    by (simp add: years_four)
  have fail: "predict_try ?ev
      (df_set_scalar (base_df sample_station 2 25 55) ''year'' (Num (of_int 2027))) True
      = Inl (FileNotFoundError (resource_path sample_env ''xgboost.joblib''))"
    by (rule sample_try_without_xgboost)
  have p1: "\<exists>msg. projection_data (index ?ev sample_request) = Some (Error msg)"
    using projection_is_all_or_nothing
      [of sample_request ?ev 25 55 sample_station 2 2027
          "FileNotFoundError (resource_path sample_env ''xgboost.joblib'')"]
      sample_post loc rooms yr fail
    by blast
  have lat: "form_float ?bare (form sample_request) ''latitude'' 25.2048 = Inr 25"
    and lon: "form_float ?bare (form sample_request) ''longitude'' 55.2708 = Inr 55"
    unfolding form_float_with_stations by (rule sample_form)+
  have none: "find_closest_metro (metro_df ?bare) 25 55 = Inr None"
    by (simp add: with_stations_fields find_closest_metro_def)
  then have "\<forall>m. find_closest_metro (metro_df ?bare) 25 55 \<noteq> Inr (Some m)"
    by simp
  then have p2: "\<exists>msg. projection_data (index ?bare sample_request) = Some (Error msg)"
    using projection_is_all_or_nothing [of sample_request ?bare 25 55] sample_post lat lon
    by blast
  from fail have fail': "predict_try ?ev
      (df_set_scalar (base_df sample_station 2 25 55) ''year'' (Num 2027)) True
      = Inl (FileNotFoundError (resource_path sample_env ''xgboost.joblib''))"
    by simp
  show ?thesis
    using sample_post loc rooms yr' fail' p1 none p2 by blast
qed

text \<open>
  C8. With no station in the table the lookup gives \<^verbatim>\<open>None\<close>, and it gives
  \<^verbatim>\<open>None\<close> in no other case; \<^verbatim>\<open>index\<close> turns that result into the error
  \<^verbatim>\<open>Could not find closest metro. Check data file.\<close>, and the page carries this
  message and no station name.
\<close>

theorem empty_store_is_reported:
  "find_closest_metro [] user_lat user_lon = Inr None
   \<and> (find_closest_metro stations user_lat user_lon = Inr None \<longleftrightarrow> stations = [])
   \<and> (request_method req = ''POST'' \<and> metro_df ev = []
        \<and> form_float ev (form req) ''latitude'' 25.2048 = Inr lat
        \<and> form_float ev (form req) ''longitude'' 55.2708 = Inr lon
      \<longrightarrow> index ev req =
            \<lparr>projection_data =
               Some (Error ''Error: Could not find closest metro. Check data file.''),
             form_data = form req, closest_metro_name = None\<rparr>)"
proof (intro conjI impI)
  show "find_closest_metro [] user_lat user_lon = Inr None"
    by (simp add: find_closest_metro_def)
  show "find_closest_metro stations user_lat user_lon = Inr None \<longleftrightarrow> stations = []"
    by (rule find_closest_metro_empty_iff)
  assume a: "request_method req = ''POST'' \<and> metro_df ev = []
        \<and> form_float ev (form req) ''latitude'' 25.2048 = Inr lat
        \<and> form_float ev (form req) ''longitude'' 55.2708 = Inr lon"
  then have lat: "form_float ev (form req) ''latitude'' 25.2048 = Inr lat"
    and lon: "form_float ev (form req) ''longitude'' 55.2708 = Inr lon"
    and empty: "metro_df ev = []"
    by blast+
  have "locate ev (form req) =
      Inl (ValueError ''Could not find closest metro. Check data file.'')"
    unfolding locate_def lat lon bindE_Inr empty
    by (simp add: find_closest_metro_def)
  with a show "index ev req =
            \<lparr>projection_data =
               Some (Error ''Error: Could not find closest metro. Check data file.''),
             form_data = form req, closest_metro_name = None\<rparr>"
    using index_locate_failed [of req ev] by (simp add: error_data_def)
qed

theorem empty_store_is_reported_witness:
  "request_method sample_request = ''POST'' \<and> metro_df (with_stations sample_env []) = []
   \<and> form_float (with_stations sample_env []) (form sample_request) ''latitude'' 25.2048
        = Inr 25
   \<and> form_float (with_stations sample_env []) (form sample_request) ''longitude'' 55.2708
        = Inr 55
   \<and> index (with_stations sample_env []) sample_request =
        \<lparr>projection_data =
           Some (Error ''Error: Could not find closest metro. Check data file.''),
         form_data = form sample_request, closest_metro_name = None\<rparr>"
proof -
  let ?bare = "with_stations sample_env []"
  have lat: "form_float ?bare (form sample_request) ''latitude'' 25.2048 = Inr 25"
    and lon: "form_float ?bare (form sample_request) ''longitude'' 55.2708 = Inr 55"
    unfolding form_float_with_stations by (rule sample_form)+
  have empty: "metro_df ?bare = []"
    by (simp add: with_stations_fields)
  show ?thesis
    using empty_store_is_reported [of 0 0 "[]" sample_request ?bare 25 55]
      sample_post lat lon empty
    by blast
qed

lemma range_2025_2028:
  "calculate_y_axis_range exact_ops [Num 2025, Num 2026, Num 2027, Num 2028] = Inr (2000, 2100)"
proof -
  have "\<lfloor>log 10 2028\<rfloor> = (3::int)"
    by (simp add: floor_log_eq_powr_iff)
  then show ?thesis
    using range_exact [of "[2025, 2026, 2027, 2028]"] by (simp add: Let_def)
qed

lemma sample_labels:
  "map str_int [2025, 2026, 2027, 2028] = [''2025'', ''2026'', ''2027'', ''2028'']"
  by (simp add: str_int_def digits_nat.simps digit_char_def)

lemma project_result:
  assumes "project ev fd lat lon m = Inr p"
  shows "\<exists>rooms lo hi. form_int ev fd ''rooms'' 1 = Inr rooms
     \<and> calculate_y_axis_range (arith ev)
          (map (\<lambda>year. get_prediction ev
                  (df_set_scalar (base_df m rooms lat lon) ''year'' (Num (of_int year))) True)
             (years_to_predict (today_year ev))) = Inr (lo, hi)
     \<and> p = Projection (map str_int (years_to_predict (today_year ev)))
          (map (\<lambda>year. get_prediction ev
                  (df_set_scalar (base_df m rooms lat lon) ''year'' (Num (of_int year))) True)
             (years_to_predict (today_year ev))) lo hi"
proof (cases "form_int ev fd ''rooms'' 1")
  case (Inl e)
  with assms show ?thesis
    by (simp add: project_def)
next
  case (Inr rooms)
  let ?preds = "map (\<lambda>year. get_prediction ev
                  (df_set_scalar (base_df m rooms lat lon) ''year'' (Num (of_int year))) True)
             (years_to_predict (today_year ev))"
  show ?thesis
  proof (cases "calculate_y_axis_range (arith ev) ?preds")
    case (Inl e)
    with assms Inr show ?thesis
      by (simp add: project_def Let_def)
  next
    case range: (Inr r)
    obtain lo hi where r: "r = (lo, hi)"
      by (cases r)
    from assms Inr range r
    have "p = Projection (map str_int (years_to_predict (today_year ev))) ?preds lo hi"
      by (simp add: project_def Let_def)
    with Inr range r show ?thesis
      by blast
  qed
qed

lemma index_projection:
  assumes "projection_data (index ev req) = Some (Projection ls vs lo hi)"
  shows "\<exists>lat lon m. project ev (form req) lat lon m = Inr (Projection ls vs lo hi)"
proof -
  have post: "request_method req = ''POST''"
    using assms by (cases "request_method req = ''POST''") (simp_all add: index_def)
  show ?thesis
  proof (cases "locate ev (form req)")
    case (Inl e)
    with assms post show ?thesis
      by (simp add: index_locate_failed error_data_def)
  next
    case (Inr t)
    obtain lat lon m where t: "t = (lat, lon, m)"
      by (cases t)
    from index_located(1) [OF post Inr [unfolded t]] assms
    have "project ev (form req) lat lon m = Inr (Projection ls vs lo hi)"
      by (cases "project ev (form req) lat lon m") (simp_all add: error_data_def)
    then show ?thesis
      by blast
  qed
qed

lemma below_four: "i < 4 \<Longrightarrow> i = 0 \<or> i = 1 \<or> i = 2 \<or> i = (3::nat)"
  by arith

text \<open>
  C3. A projection that \<^verbatim>\<open>index\<close> returns has four labels, the decimal strings of the
  current year and the three years after it in this order, and four values, each a number
  and each the prediction for the year of the label at the same position.
\<close>

theorem projection_has_four_aligned_years:
  "projection_data (index ev req) = Some (Projection ls vs lo hi) \<longrightarrow>
     ls = [str_int (today_year ev), str_int (today_year ev + 1),
           str_int (today_year ev + 2), str_int (today_year ev + 3)]
     \<and> length ls = 4 \<and> length vs = 4
     \<and> (\<exists>df. \<forall>i < 4.
           ls ! i = str_int (today_year ev + int i)
           \<and> vs ! i = get_prediction ev
                (df_set_scalar df ''year'' (Num (of_int (today_year ev + int i)))) True
           \<and> (\<exists>r. vs ! i = Num r))"
proof
  assume "projection_data (index ev req) = Some (Projection ls vs lo hi)"
  then obtain lat lon m where "project ev (form req) lat lon m = Inr (Projection ls vs lo hi)"
    using index_projection by blast
  then obtain rooms where
    range: "calculate_y_axis_range (arith ev)
          (map (\<lambda>year. get_prediction ev
                  (df_set_scalar (base_df m rooms lat lon) ''year'' (Num (of_int year))) True)
             (years_to_predict (today_year ev))) = Inr (lo, hi)"
    and ls: "ls = map str_int (years_to_predict (today_year ev))"
    and vs: "vs = map (\<lambda>year. get_prediction ev
                  (df_set_scalar (base_df m rooms lat lon) ''year'' (Num (of_int year))) True)
             (years_to_predict (today_year ev))"
    using project_result [of ev "form req" lat lon m "Projection ls vs lo hi"] by auto
  define y where "y = today_year ev"
  define g where "g = (\<lambda>year. get_prediction ev
      (df_set_scalar (base_df m rooms lat lon) ''year'' (Num (of_int year))) True)"
  have ls4: "ls = [str_int y, str_int (y + 1), str_int (y + 2), str_int (y + 3)]"
    unfolding ls y_def years_four by simp
  have vs4: "vs = [g y, g (y + 1), g (y + 2), g (y + 3)]"
    unfolding vs y_def years_four g_def by (simp only: list.map)
  have nums: "\<forall>x \<in> set vs. \<exists>r. x = Num r"
    using range_ok_all_numbers [OF range] unfolding vs by blast
  have aligned: "ls ! i = str_int (y + int i) \<and> vs ! i = g (y + int i) \<and> (\<exists>r. vs ! i = Num r)"
    if "i < 4" for i
  proof -
    have "i < length vs"
      using that by (simp add: vs4)
    then have "vs ! i \<in> set vs"
      by (rule nth_mem)
    then have "\<exists>r. vs ! i = Num r"
      using nums by blast
    moreover have "ls ! i = str_int (y + int i) \<and> vs ! i = g (y + int i)"
      using below_four [OF that] by (auto simp: ls4 vs4)
    ultimately show ?thesis
      by blast
  qed
  have "\<forall>i < 4. ls ! i = str_int (today_year ev + int i)
           \<and> vs ! i = get_prediction ev
                (df_set_scalar (base_df m rooms lat lon) ''year''
                   (Num (of_int (today_year ev + int i)))) True
           \<and> (\<exists>r. vs ! i = Num r)"
    using aligned unfolding y_def g_def by blast
  then have "\<exists>df. \<forall>i < 4. ls ! i = str_int (today_year ev + int i)
           \<and> vs ! i = get_prediction ev
                (df_set_scalar df ''year'' (Num (of_int (today_year ev + int i)))) True
           \<and> (\<exists>r. vs ! i = Num r)"
    by (rule exI [of _ "base_df m rooms lat lon"])
  moreover have "ls = [str_int (today_year ev), str_int (today_year ev + 1),
           str_int (today_year ev + 2), str_int (today_year ev + 3)]"
    using ls4 by (simp add: y_def)
  moreover have "length ls = 4" "length vs = 4"
    by (simp_all add: ls4 vs4)
  ultimately show "ls = [str_int (today_year ev), str_int (today_year ev + 1),
           str_int (today_year ev + 2), str_int (today_year ev + 3)]
     \<and> length ls = 4 \<and> length vs = 4
     \<and> (\<exists>df. \<forall>i < 4.
           ls ! i = str_int (today_year ev + int i)
           \<and> vs ! i = get_prediction ev
                (df_set_scalar df ''year'' (Num (of_int (today_year ev + int i)))) True
           \<and> (\<exists>r. vs ! i = Num r))"
    by blast
qed

lemma sample_project:
  "project sample_env (form sample_request) 25 55 sample_station =
     Inr (Projection [''2025'', ''2026'', ''2027'', ''2028'']
            [Num 2025, Num 2026, Num 2027, Num 2028] 2000 2100)"
proof -
  have "map (\<lambda>year. get_prediction sample_env
          (df_set_scalar (base_df sample_station 2 25 55) ''year'' (Num (of_int year))) True)
        (years_to_predict (today_year sample_env))
      = [Num 2025, Num 2026, Num 2027, Num 2028]"
    unfolding sample_get_prediction by (simp add: sample_env_fields years_four)
  moreover have "map str_int (years_to_predict (today_year sample_env))
      = [''2025'', ''2026'', ''2027'', ''2028'']"
    using sample_labels by (simp add: sample_env_fields years_four)
  ultimately show ?thesis
    unfolding project_def sample_form bindE_Inr Let_def
    by (simp only: sample_env_fields range_2025_2028 bindE_Inr prod.case)
qed

theorem projection_has_four_aligned_years_witness:
  "projection_data (index sample_env sample_request) =
     Some (Projection [''2025'', ''2026'', ''2027'', ''2028'']
             [Num 2025, Num 2026, Num 2027, Num 2028] 2000 2100)
   \<and> [''2025'', ''2026'', ''2027'', ''2028''] =
       [str_int (today_year sample_env), str_int (today_year sample_env + 1),
        str_int (today_year sample_env + 2), str_int (today_year sample_env + 3)]
   \<and> length [Num 2025, Num 2026, Num 2027, Num 2028] = 4"
proof -
  have "projection_data (index sample_env sample_request) =
     Some (Projection [''2025'', ''2026'', ''2027'', ''2028'']
             [Num 2025, Num 2026, Num 2027, Num 2028] 2000 2100)"
    unfolding index_located(1) [OF sample_post sample_locate] sample_project by simp
  then show ?thesis
    using projection_has_four_aligned_years
      [of sample_env sample_request "[''2025'', ''2026'', ''2027'', ''2028'']"
          "[Num 2025, Num 2026, Num 2027, Num 2028]" 2000 2100]
    by blast
qed

end
